theory Spec2Isabelle
  imports Complex_Main "HOL-Library.AList" "HOL-Library.Multiset"
begin

section \<open>Data model\<close>

text \<open>
  The strategies in \<^verbatim>\<open>src/strategies/ema_strategy.py\<close> and
  \<^verbatim>\<open>src/strategies/rsi_strategy.py\<close> are LangGraph nodes: \<^verbatim>\<open>__call__\<close> reads the shared
  \<^verbatim>\<open>AgentState\<close>, calls four indicator functions per (ticker, interval) pair, fuses them with
  \<^verbatim>\<open>weighted_signal_combination\<close>, and assembles a nested dictionary.

  Python floats are idealised as exact rationals. Dictionaries whose iteration order is
  observable (the report, which is handed to \<^verbatim>\<open>json.dumps\<close>) are association lists updated
  with \<open>AList.update\<close>, which overwrites in place or appends, as a Python \<^verbatim>\<open>dict\<close> does;
  dictionaries that are only looked up are maps.
\<close>

datatype error =
    KeyError string
  | ConfigurationError
  | Raised string

definition bindE :: "error + 'a \<Rightarrow> ('a \<Rightarrow> error + 'b) \<Rightarrow> error + 'b" where
  "bindE m f = (case m of Inl e \<Rightarrow> Inl e | Inr x \<Rightarrow> f x)"

text \<open>JSON-compatible values: what the report is made of and what \<^verbatim>\<open>json.dumps\<close> receives.\<close>

datatype json =
    JNull
  | JStr string
  | JInt int
  | JNum rat
  | JList "json list"
  | JObj "(string \<times> json) list"

fun json_keys :: "json \<Rightarrow> string list" where
  "json_keys (JObj kvs) = map fst kvs"
| "json_keys _ = []"

fun json_get :: "json \<Rightarrow> string \<Rightarrow> json option" where
  "json_get (JObj kvs) k = map_of kvs k"
| "json_get _ k = None"

text \<open>The signal strings produced by the indicator functions, as a closed enumeration.\<close>

datatype SignalDirection = bullish | bearish | neutral

fun signal_value :: "SignalDirection \<Rightarrow> string" where
  "signal_value bullish = ''bullish''"
| "signal_value bearish = ''bearish''"
| "signal_value neutral = ''neutral''"

text \<open>
  The dictionary an indicator function returns, with keys \<^verbatim>\<open>"signal"\<close>, \<^verbatim>\<open>"confidence"\<close>
  and \<^verbatim>\<open>"metrics"\<close>. The metrics are raw (they may hold pandas objects) until
  \<^verbatim>\<open>normalize_pandas\<close> is applied, hence the type parameter.
\<close>

record 'm SignalTriple =
  signal :: SignalDirection
  confidence :: rat
  metrics :: 'm

text \<open>The dictionary \<^verbatim>\<open>weighted_signal_combination\<close> returns.\<close>

record ConsensusResult =
  consensus_signal :: SignalDirection
  consensus_confidence :: rat

text \<open>An \<^verbatim>\<open>Interval\<close> enum member; only its \<^verbatim>\<open>.value\<close> is read.\<close>

datatype Interval = Interval (interval_value: string)

text \<open>
  \<^verbatim>\<open>state['data']\<close>. The keys the strategies read or write are fields (\<open>None\<close>: key absent); the
  remaining keys, \<^verbatim>\<open>f"{ticker}_{interval.value}"\<close>, are the map \<open>series\<close>. A time series is a list
  of rows and \<^verbatim>\<open>pd.DataFrame()\<close> is the empty list. A ticker and an interval whose key would
  be one of the named keys (\<^verbatim>\<open>"analyst_signals"\<close> from \<^verbatim>\<open>"analyst"\<close> and \<^verbatim>\<open>"signals"\<close>) are
  outside this model.
\<close>

record 'row DataDict =
  name :: "string option"
  tickers :: "string list option"
  intervals :: "Interval list option"
  analyst_signals :: "(string \<rightharpoonup> json) option"
  series :: "string \<rightharpoonup> 'row list"

record HumanMessage =
  content :: string
  message_name :: string

record 'row AgentState =
  messages :: "HumanMessage list"
  data :: "'row DataDict"
  metadata :: "string \<rightharpoonup> bool"

text \<open>The four indicator functions the strategies call.\<close>

datatype adapter = Trend | Momentum | MeanReversion | Volatility

text \<open>
  Effects other than writes to the state: each call of an indicator function, with the series it
  received, and the diagnostic print of \<^verbatim>\<open>show_agent_reasoning\<close>.
\<close>

datatype 'row event =
    Invoked adapter "'row list"
  | Shown json string

text \<open>
  The functions imported from \<^verbatim>\<open>indicators\<close> and \<^verbatim>\<open>json\<close>. Their code is not part of the
  strategies, so they are parameters; each may raise.
\<close>

record ('row, 'm) env =
  calculate_trend_signals :: "'row list \<Rightarrow> error + 'm SignalTriple"
  calculate_momentum_signals :: "'row list \<Rightarrow> error + 'm SignalTriple"
  calculate_mean_reversion_signals :: "'row list \<Rightarrow> error + 'm SignalTriple"
  calculate_volatility_signals :: "'row list \<Rightarrow> error + 'm SignalTriple"
  weighted_signal_combination ::
    "(string \<times> 'm SignalTriple) list \<Rightarrow> (string \<times> rat) list \<Rightarrow> error + ConsensusResult"
  normalize_pandas :: "'m \<Rightarrow> error + json"
  json_dumps :: "json \<Rightarrow> error + string"

record 'row outcome =
  returned_messages :: "HumanMessage list"
  returned_data :: "'row DataDict"
  state_after :: "'row AgentState"
  effects :: "'row event list"

section \<open>The strategies\<close>

text \<open>Python's \<^verbatim>\<open>round(x)\<close> on a float: to the nearest integer, a tie going to the even one.\<close>

definition py_round :: "rat \<Rightarrow> int" where
  "py_round x =
     (let f = \<lfloor>x\<rfloor>; d = x - of_int f
      in if d < 1 / 2 then f
         else if 1 / 2 < d then f + 1
         else if even f then f else f + 1)"

fun adapter_of :: "('row, 'm) env \<Rightarrow> adapter \<Rightarrow> 'row list \<Rightarrow> error + 'm SignalTriple" where
  "adapter_of env Trend = calculate_trend_signals env"
| "adapter_of env Momentum = calculate_momentum_signals env"
| "adapter_of env MeanReversion = calculate_mean_reversion_signals env"
| "adapter_of env Volatility = calculate_volatility_signals env"

text \<open>One call of an indicator function; when it returns, the call is appended to the trace.\<close>

definition invoke ::
  "('row, 'm) env \<Rightarrow> adapter \<Rightarrow> 'row list \<Rightarrow> 'row event list
     \<Rightarrow> error + ('m SignalTriple \<times> 'row event list)" where
  "invoke env a df tr =
     bindE (adapter_of env a df) (\<lambda>t. Inr (t, tr @ [Invoked a df]))"

text \<open>
  The entry written for one label:
  \<^verbatim>\<open>{"signal": s["signal"], "confidence": round(s["confidence"] * 100),
    "metrics": normalize_pandas(s["metrics"])}\<close>.
\<close>

definition label_detail :: "('row, 'm) env \<Rightarrow> 'm SignalTriple \<Rightarrow> error + json" where
  "label_detail env s =
     bindE (normalize_pandas env (metrics s)) (\<lambda>m.
       Inr (JObj [(''signal'', JStr (signal_value (signal s))),
                  (''confidence'', JInt (py_round (confidence s * 100))),
                  (''metrics'', m)]))"

text \<open>\<^verbatim>\<open>data.get("tickers", [])\<close> and \<^verbatim>\<open>data.get("intervals", [])\<close>\<close>

definition get_tickers :: "'row DataDict \<Rightarrow> string list" where
  "get_tickers d = (case tickers d of None \<Rightarrow> [] | Some l \<Rightarrow> l)"

definition get_intervals :: "'row DataDict \<Rightarrow> Interval list" where
  "get_intervals d = (case intervals d of None \<Rightarrow> [] | Some l \<Rightarrow> l)"

text \<open>\<^verbatim>\<open>data.get(f"{ticker}_{interval.value}", pd.DataFrame())\<close>\<close>

definition get_series :: "'row DataDict \<Rightarrow> string \<Rightarrow> Interval \<Rightarrow> 'row list" where
  "get_series d ticker interval =
     (case series d (ticker @ ''_'' @ interval_value interval) of
        None \<Rightarrow> []
      | Some df \<Rightarrow> df)"

subsection \<open>EMAStrategy\<close>

definition ema_strategy_weights :: "(string \<times> rat) list" where
  "ema_strategy_weights =
     [(''ema_crossovers'', 45 / 100),
      (''ema_slope'', 30 / 100),
      (''price_to_ema'', 15 / 100),
      (''multi_timeframe'', 5 / 100),
      (''ema_volatility'', 5 / 100)]"

definition ema_periods :: json where
  "ema_periods =
     JObj [(''short'', JList [JInt 3, JInt 5, JInt 8]),
           (''medium'', JList [JInt 13, JInt 21, JInt 34]),
           (''long'', JList [JInt 55, JInt 89, JInt 144])]"

text \<open>The body of the inner loop of \<^verbatim>\<open>EMAStrategy.__call__\<close> (lines 55 to 107).\<close>

definition ema_pair ::
  "('row, 'm) env \<Rightarrow> 'row DataDict \<Rightarrow> string \<Rightarrow> Interval \<Rightarrow> 'row event list
     \<Rightarrow> error + (json \<times> 'row event list)" where
  "ema_pair env d ticker interval tr0 =
     (let df = get_series d ticker interval in
      bindE (invoke env Trend df tr0) (\<lambda>(trend_signals, tr1).
      bindE (invoke env Momentum df tr1) (\<lambda>(momentum_signals, tr2).
      bindE (invoke env MeanReversion df tr2) (\<lambda>(mean_reversion_signals, tr3).
      bindE (invoke env Volatility df tr3) (\<lambda>(volatility_signals, tr4).
      bindE (weighted_signal_combination env
               [(''ema_crossovers'', trend_signals),
                (''ema_slope'', momentum_signals),
                (''price_to_ema'', mean_reversion_signals),
                (''multi_timeframe'', trend_signals),
                (''ema_volatility'', volatility_signals)]
               ema_strategy_weights) (\<lambda>combined_signal.
      bindE (label_detail env trend_signals) (\<lambda>ema_crossovers.
      bindE (label_detail env momentum_signals) (\<lambda>ema_slope.
      bindE (label_detail env mean_reversion_signals) (\<lambda>price_to_ema.
      bindE (label_detail env trend_signals) (\<lambda>multi_timeframe.
      bindE (label_detail env volatility_signals) (\<lambda>ema_volatility.
        Inr (JObj [(''signal'', JStr (signal_value (consensus_signal combined_signal))),
                   (''confidence'', JInt (py_round (consensus_confidence combined_signal * 100))),
                   (''ema_periods'', ema_periods),
                   (''strategy_signals'',
                      JObj [(''ema_crossovers'', ema_crossovers),
                            (''ema_slope'', ema_slope),
                            (''price_to_ema'', price_to_ema),
                            (''multi_timeframe'', multi_timeframe),
                            (''ema_volatility'', ema_volatility)])],
             tr4))))))))))))"

subsection \<open>RSIStrategy\<close>

definition rsi_strategy_weights :: "(string \<times> rat) list" where
  "rsi_strategy_weights =
     [(''rsi_overbought_oversold'', 5 / 100),
      (''rsi_divergence'', 5 / 100),
      (''rsi_trend_strength'', 5 / 100),
      (''rsi_volatility'', 5 / 100),
      (''momentum'', 80 / 100)]"

text \<open>The body of the inner loop of \<^verbatim>\<open>RSIStrategy.__call__\<close> (lines 49 to 100).\<close>

definition rsi_pair ::
  "('row, 'm) env \<Rightarrow> 'row DataDict \<Rightarrow> string \<Rightarrow> Interval \<Rightarrow> 'row event list
     \<Rightarrow> error + (json \<times> 'row event list)" where
  "rsi_pair env d ticker interval tr0 =
     (let df = get_series d ticker interval in
      bindE (invoke env Trend df tr0) (\<lambda>(trend_signals, tr1).
      bindE (invoke env Momentum df tr1) (\<lambda>(momentum_signals, tr2).
      bindE (invoke env MeanReversion df tr2) (\<lambda>(mean_reversion_signals, tr3).
      bindE (invoke env Volatility df tr3) (\<lambda>(volatility_signals, tr4).
      bindE (weighted_signal_combination env
               [(''rsi_overbought_oversold'', mean_reversion_signals),
                (''rsi_divergence'', trend_signals),
                (''rsi_trend_strength'', momentum_signals),
                (''rsi_volatility'', volatility_signals),
                (''momentum'', momentum_signals)]
               rsi_strategy_weights) (\<lambda>combined_signal.
      bindE (label_detail env mean_reversion_signals) (\<lambda>rsi_overbought_oversold.
      bindE (label_detail env trend_signals) (\<lambda>rsi_divergence.
      bindE (label_detail env momentum_signals) (\<lambda>rsi_trend_strength.
      bindE (label_detail env volatility_signals) (\<lambda>rsi_volatility.
      bindE (label_detail env momentum_signals) (\<lambda>momentum.
        Inr (JObj [(''signal'', JStr (signal_value (consensus_signal combined_signal))),
                   (''confidence'', JInt (py_round (consensus_confidence combined_signal * 100))),
                   (''strategy_signals'',
                      JObj [(''rsi_overbought_oversold'', rsi_overbought_oversold),
                            (''rsi_divergence'', rsi_divergence),
                            (''rsi_trend_strength'', rsi_trend_strength),
                            (''rsi_volatility'', rsi_volatility),
                            (''momentum'', momentum)])],
             tr4))))))))))))"

subsection \<open>The loops and the epilogue the two strategies share\<close>

type_synonym report = "(string \<times> (string \<times> json) list) list"

type_synonym ('row, 'm) pair_body =
  "('row, 'm) env \<Rightarrow> 'row DataDict \<Rightarrow> string \<Rightarrow> Interval \<Rightarrow> 'row event list
     \<Rightarrow> error + (json \<times> 'row event list)"

text \<open>\<^verbatim>\<open>for ticker in tickers: analysis[ticker] = {}\<close>\<close>

definition init_report :: "string list \<Rightarrow> report" where
  "init_report ts = fold (\<lambda>ticker analysis. AList.update ticker [] analysis) ts []"

text \<open>\<^verbatim>\<open>analysis[ticker][interval.value] = record\<close>; the read of \<^verbatim>\<open>analysis[ticker]\<close> raises
  when the ticker is not a key.\<close>

definition store_record :: "string \<Rightarrow> string \<Rightarrow> json \<Rightarrow> report \<Rightarrow> error + report" where
  "store_record ticker label rec analysis =
     (case map_of analysis ticker of
        None \<Rightarrow> Inl (KeyError ticker)
      | Some inner \<Rightarrow> Inr (AList.update ticker (AList.update label rec inner) analysis))"

fun interval_loop ::
  "('row, 'm) pair_body \<Rightarrow> ('row, 'm) env \<Rightarrow> 'row DataDict \<Rightarrow> string \<Rightarrow> Interval list
     \<Rightarrow> report \<times> 'row event list \<Rightarrow> error + (report \<times> 'row event list)" where
  "interval_loop body env d ticker [] acc = Inr acc"
| "interval_loop body env d ticker (interval # rest) (analysis, tr) =
     bindE (body env d ticker interval tr) (\<lambda>(rec, tr').
     bindE (store_record ticker (interval_value interval) rec analysis) (\<lambda>analysis'.
       interval_loop body env d ticker rest (analysis', tr')))"

fun ticker_loop ::
  "('row, 'm) pair_body \<Rightarrow> ('row, 'm) env \<Rightarrow> 'row DataDict \<Rightarrow> string list \<Rightarrow> Interval list
     \<Rightarrow> report \<times> 'row event list \<Rightarrow> error + (report \<times> 'row event list)" where
  "ticker_loop body env d [] is acc = Inr acc"
| "ticker_loop body env d (ticker # rest) is acc =
     bindE (interval_loop body env d ticker is acc) (\<lambda>acc'.
       ticker_loop body env d rest is acc')"

text \<open>The report as the nested dictionary it is in Python.\<close>

definition report_json :: "report \<Rightarrow> json" where
  "report_json analysis = JObj (map (\<lambda>(ticker, inner). (ticker, JObj inner)) analysis)"

text \<open>
  \<^verbatim>\<open>__call__\<close>, with the three places where the two classes differ as parameters: the value
  written to \<^verbatim>\<open>data['name']\<close>, the title passed to \<^verbatim>\<open>show_agent_reasoning\<close> and the loop body.
  The result holds the returned dictionary, the state as the call leaves it, and the effects.
  The checks come in the order of the code: \<^verbatim>\<open>json.dumps\<close>, then
  \<^verbatim>\<open>state["metadata"]["show_reasoning"]\<close>, then \<^verbatim>\<open>state["data"]["analyst_signals"]\<close>. When
  the call raises, the result is the error alone; the write to \<^verbatim>\<open>data['name']\<close> that has
  happened by then is not part of it.
\<close>

definition run_strategy ::
  "string \<Rightarrow> string \<Rightarrow> ('row, 'm) pair_body \<Rightarrow> ('row, 'm) env \<Rightarrow> 'row AgentState
     \<Rightarrow> error + 'row outcome" where
  "run_strategy strategy_name title body env state =
     (let d = (data state)\<lparr>name := Some strategy_name\<rparr>;
          ts = get_tickers d;
          is = get_intervals d
      in
      bindE (ticker_loop body env d ts is (init_report ts, [])) (\<lambda>(analysis, tr).
      bindE (json_dumps env (report_json analysis)) (\<lambda>text.
      bindE (case metadata state ''show_reasoning'' of
               None \<Rightarrow> Inl (KeyError ''show_reasoning'')
             | Some flag \<Rightarrow> Inr flag) (\<lambda>show_reasoning.
      bindE (case analyst_signals d of
               None \<Rightarrow> Inl (KeyError ''analyst_signals'')
             | Some sigs \<Rightarrow> Inr sigs) (\<lambda>sigs.
        let d' = d\<lparr>analyst_signals :=
                      Some (sigs(''technical_analyst_agent'' \<mapsto> report_json analysis))\<rparr>
        in Inr \<lparr>returned_messages =
                  [\<lparr>content = text, message_name = ''technical_analyst_agent''\<rparr>],
                returned_data = d',
                state_after = state\<lparr>data := d'\<rparr>,
                effects = (if show_reasoning
                           then tr @ [Shown (report_json analysis) title] else tr)\<rparr>)))))"

definition EMAStrategy_call :: "('row, 'm) env \<Rightarrow> 'row AgentState \<Rightarrow> error + 'row outcome" where
  "EMAStrategy_call = run_strategy ''EMAStrategy'' ''EMA Analyst'' ema_pair"

definition RSIStrategy_call :: "('row, 'm) env \<Rightarrow> 'row AgentState \<Rightarrow> error + 'row outcome" where
  "RSIStrategy_call = run_strategy ''RSIStrategy'' ''RSI Analyst'' rsi_pair"

section \<open>The Signal Fusion Engine\<close>

text \<open>
  The strategies import \<^verbatim>\<open>weighted_signal_combination\<close> from the \<^verbatim>\<open>indicators\<close> package,
  whose code is not among the sources. The definitions of this section follow section 4.1 of
  the specification instead: every label of the set whose weight is positive contributes
  \<open>w * confidence * sign(direction)\<close>; the contributions are summed and divided by the sum \<open>W\<close>
  of the weights used; the direction is bullish above the threshold, bearish below its negative
  and neutral otherwise; the confidence is \<open>|S|\<close> clamped to \<open>[0, 1]\<close>; \<open>W = 0\<close> is a
  \<open>ConfigurationError\<close>.
\<close>

text \<open>Modelled from the spec: the sign of a direction (\<^verbatim>\<open>weighted_signal_combination\<close> is
  missing): bullish +1, bearish -1, neutral 0.\<close>

fun direction_sign :: "SignalDirection \<Rightarrow> rat" where
  "direction_sign bullish = 1"
| "direction_sign bearish = - 1"
| "direction_sign neutral = 0"

text \<open>Modelled from the spec: the weight of a label (\<^verbatim>\<open>weighted_signal_combination\<close> is
  missing); a label the profile does not hold contributes nothing, so its weight is 0.\<close>

definition weight_of :: "(string \<times> rat) list \<Rightarrow> string \<Rightarrow> rat" where
  "weight_of profile label = (case map_of profile label of None \<Rightarrow> 0 | Some w \<Rightarrow> w)"

text \<open>Modelled from the spec: the labels present with weight \<open>w > 0\<close>
  (\<^verbatim>\<open>weighted_signal_combination\<close> is missing).\<close>

definition usable_signals ::
  "(string \<times> rat) list \<Rightarrow> (string \<times> 'm SignalTriple) list \<Rightarrow> (string \<times> 'm SignalTriple) list" where
  "usable_signals profile signals = filter (\<lambda>(label, s). 0 < weight_of profile label) signals"

text \<open>Modelled from the spec: the signed contribution \<open>w * confidence * sign(direction)\<close>
  (\<^verbatim>\<open>weighted_signal_combination\<close> is missing).\<close>

definition contribution :: "(string \<times> rat) list \<Rightarrow> string \<times> 'm SignalTriple \<Rightarrow> rat" where
  "contribution profile = (\<lambda>(label, s).
     weight_of profile label * confidence s * direction_sign (signal s))"

text \<open>Modelled from the spec: the sum of the contributions (\<^verbatim>\<open>weighted_signal_combination\<close>
  is missing).\<close>

definition weighted_sum :: "(string \<times> rat) list \<Rightarrow> (string \<times> 'm SignalTriple) list \<Rightarrow> rat" where
  "weighted_sum profile signals =
     sum_list (map (contribution profile) (usable_signals profile signals))"

text \<open>Modelled from the spec: the normalization denominator \<open>W\<close>, the sum of the weights
  actually used (\<^verbatim>\<open>weighted_signal_combination\<close> is missing).\<close>

definition total_weight :: "(string \<times> rat) list \<Rightarrow> (string \<times> 'm SignalTriple) list \<Rightarrow> rat" where
  "total_weight profile signals =
     sum_list (map (\<lambda>(label, s). weight_of profile label) (usable_signals profile signals))"

text \<open>Modelled from the spec: the Signal Fusion Engine, standing for the missing
  \<^verbatim>\<open>weighted_signal_combination\<close>. The threshold is a parameter; the specification recommends
  0, with ties going to neutral.\<close>

definition fusion_engine ::
  "rat \<Rightarrow> (string \<times> 'm SignalTriple) list \<Rightarrow> (string \<times> rat) list \<Rightarrow> error + ConsensusResult" where
  "fusion_engine threshold signals profile =
     (let W = total_weight profile signals in
      if W = 0 then Inl ConfigurationError
      else
        let S = weighted_sum profile signals / W in
        Inr \<lparr>consensus_signal =
               (if threshold < S then bullish
                else if S < - threshold then bearish
                else neutral),
             consensus_confidence = min 1 (max 0 \<bar>S\<bar>)\<rparr>)"

text \<open>A profile with every weight multiplied by \<open>c\<close>.\<close>

definition scale_profile :: "rat \<Rightarrow> (string \<times> rat) list \<Rightarrow> (string \<times> rat) list" where
  "scale_profile c profile = map (\<lambda>(label, w). (label, c * w)) profile"

section \<open>Reading a result\<close>

text \<open>The calls of the four indicator functions one pair makes, in the order of the code.\<close>

definition adapter_calls :: "'row list \<Rightarrow> 'row event list" where
  "adapter_calls df =
     [Invoked Trend df, Invoked Momentum df, Invoked MeanReversion df, Invoked Volatility df]"

text \<open>\<^verbatim>\<open>state['data']['analyst_signals']['technical_analyst_agent']\<close> after the call.\<close>

definition stored_report :: "'row outcome \<Rightarrow> json option" where
  "stored_report out =
     (case analyst_signals (data (state_after out)) of
        None \<Rightarrow> None
      | Some sigs \<Rightarrow> sigs ''technical_analyst_agent'')"

text \<open>\<^verbatim>\<open>report[ticker][label]\<close>\<close>

definition record_at :: "json \<Rightarrow> string \<Rightarrow> string \<Rightarrow> json option" where
  "record_at report ticker label =
     (case json_get report ticker of
        None \<Rightarrow> None
      | Some inner \<Rightarrow> json_get inner label)"

text \<open>The record the call left in the state for one pair.\<close>

definition reported_record :: "'row outcome \<Rightarrow> string \<Rightarrow> string \<Rightarrow> json option" where
  "reported_record out ticker label =
     (case stored_report out of
        None \<Rightarrow> None
      | Some report \<Rightarrow> record_at report ticker label)"






definition ema_labels :: "string list" where
  "ema_labels = map fst ema_strategy_weights"

definition rsi_labels :: "string list" where
  "rsi_labels = map fst rsi_strategy_weights"

text \<open>
  The imported functions return: the indicator functions, \<^verbatim>\<open>normalize_pandas\<close> and
  \<^verbatim>\<open>json.dumps\<close> on every input, the fusion on every set that has exactly the labels of one
  of the two weight tables, under that table.
\<close>

definition never_raises :: "('row, 'm) env \<Rightarrow> bool" where
  "never_raises env \<longleftrightarrow>
     (\<forall>a df. \<exists>t. adapter_of env a df = Inr t) \<and>
     (\<forall>signals. map fst signals = ema_labels
        \<longrightarrow> (\<exists>c. weighted_signal_combination env signals ema_strategy_weights = Inr c)) \<and>
     (\<forall>signals. map fst signals = rsi_labels
        \<longrightarrow> (\<exists>c. weighted_signal_combination env signals rsi_strategy_weights = Inr c)) \<and>
     (\<forall>m. \<exists>j. normalize_pandas env m = Inr j) \<and>
     (\<forall>j. \<exists>s. json_dumps env j = Inr s)"


section \<open>An instance of the imported functions and a state\<close>

text \<open>
  Indicator functions over a series of closing prices that return the neutral, zero-confidence
  triple on the empty series and a fixed direction and confidence otherwise; the fusion engine of
  the previous section with threshold 0; metrics that are JSON already; and a printer of JSON
  text (a rational is printed as a fraction).
\<close>

definition example_adapter :: "SignalDirection \<Rightarrow> rat \<Rightarrow> rat list \<Rightarrow> error + json SignalTriple" where
  "example_adapter dir c df =
     (if df = [] then Inr \<lparr>signal = neutral, confidence = 0, metrics = JObj []\<rparr>
      else Inr \<lparr>signal = dir, confidence = c, metrics = JObj [(''last'', JNum (last df))]\<rparr>)"

fun nat_text :: "nat \<Rightarrow> string" where
  "nat_text n =
     (if n < 10 then [char_of (48 + n)]
      else nat_text (n div 10) @ [char_of (48 + n mod 10)])"

definition int_text :: "int \<Rightarrow> string" where
  "int_text i = (if i < 0 then ''-'' @ nat_text (nat (- i)) else nat_text (nat i))"

fun join :: "string \<Rightarrow> string list \<Rightarrow> string" where
  "join sep [] = []"
| "join sep [x] = x"
| "join sep (x # y # ys) = x @ sep @ join sep (y # ys)"

fun json_text :: "json \<Rightarrow> string" where
  "json_text JNull = ''null''"
| "json_text (JStr s) = [CHR 0x22] @ s @ [CHR 0x22]"
| "json_text (JInt i) = int_text i"
| "json_text (JNum r) = int_text (fst (quotient_of r)) @ ''/'' @ int_text (snd (quotient_of r))"
| "json_text (JList xs) = ''['' @ join '', '' (map json_text xs) @ '']''"
| "json_text (JObj kvs) =
     ''{'' @ join '', '' (map (\<lambda>(k, v). [CHR 0x22] @ k @ [CHR 0x22] @ '': '' @ json_text v) kvs)
       @ ''}''"

definition example_env :: "(rat, json) env" where
  "example_env =
     \<lparr>calculate_trend_signals = example_adapter bullish (8 / 10),
      calculate_momentum_signals = example_adapter bullish (6 / 10),
      calculate_mean_reversion_signals = example_adapter bearish (3 / 10),
      calculate_volatility_signals = example_adapter neutral (5 / 10),
      weighted_signal_combination = fusion_engine 0,
      normalize_pandas = Inr,
      json_dumps = (\<lambda>j. Inr (json_text j))\<rparr>"

text \<open>Two tickers and one interval; the series of the second ticker is absent.\<close>

definition example_data :: "rat DataDict" where
  "example_data =
     \<lparr>name = None,
      tickers = Some [''AAA'', ''BBB''],
      intervals = Some [Interval ''1d''],
      analyst_signals = Some [''sentiment_agent'' \<mapsto> JObj []],
      series = [''AAA_1d'' \<mapsto> [100, 101, 103]]\<rparr>"

definition example_state :: "rat AgentState" where
  "example_state =
     \<lparr>messages = [], data = example_data, metadata = [''show_reasoning'' \<mapsto> False]\<rparr>"

section \<open>Results and errors\<close>

lemma bindE_Inl [simp]: "bindE (Inl e) f = Inl e" by (simp add: bindE_def)
lemma bindE_Inr [simp]: "bindE (Inr x) f = f x" by (simp add: bindE_def)
lemma bindE_eq_Inr: "bindE m f = Inr y \<longleftrightarrow> (\<exists>x. m = Inr x \<and> f x = Inr y)"
  by (cases m) auto

lemma invoke_eq_Inr:
  "invoke env a df tr = Inr r \<longleftrightarrow> (\<exists>t. adapter_of env a df = Inr t \<and> r = (t, tr @ [Invoked a df]))"
  by (auto simp: invoke_def bindE_eq_Inr)

lemma label_detail_eq_Inr:
  "label_detail env s = Inr j \<longleftrightarrow>
     (\<exists>m. normalize_pandas env (metrics s) = Inr m \<and>
          j = JObj [(''signal'', JStr (signal_value (signal s))),
                    (''confidence'', JInt (py_round (confidence s * 100))),
                    (''metrics'', m)])"
  by (auto simp: label_detail_def bindE_eq_Inr)

lemma ema_pair_eq_Inr:
  "ema_pair env d ticker interval tr = Inr r \<longleftrightarrow>
     (\<exists>tre mo mr vo c e1 e2 e3 e5.
        calculate_trend_signals env (get_series d ticker interval) = Inr tre \<and>
        calculate_momentum_signals env (get_series d ticker interval) = Inr mo \<and>
        calculate_mean_reversion_signals env (get_series d ticker interval) = Inr mr \<and>
        calculate_volatility_signals env (get_series d ticker interval) = Inr vo \<and>
        weighted_signal_combination env
          [(''ema_crossovers'', tre), (''ema_slope'', mo), (''price_to_ema'', mr),
           (''multi_timeframe'', tre), (''ema_volatility'', vo)] ema_strategy_weights = Inr c \<and>
        label_detail env tre = Inr e1 \<and> label_detail env mo = Inr e2 \<and>
        label_detail env mr = Inr e3 \<and> label_detail env vo = Inr e5 \<and>
        r = (JObj [(''signal'', JStr (signal_value (consensus_signal c))),
                   (''confidence'', JInt (py_round (consensus_confidence c * 100))),
                   (''ema_periods'', ema_periods),
                   (''strategy_signals'',
                      JObj [(''ema_crossovers'', e1), (''ema_slope'', e2), (''price_to_ema'', e3),
                            (''multi_timeframe'', e1), (''ema_volatility'', e5)])],
             tr @ adapter_calls (get_series d ticker interval)))"
  unfolding ema_pair_def Let_def adapter_calls_def
  by (auto simp: bindE_eq_Inr invoke_eq_Inr)

lemma rsi_pair_eq_Inr:
  "rsi_pair env d ticker interval tr = Inr r \<longleftrightarrow>
     (\<exists>tre mo mr vo c e1 e2 e3 e4.
        calculate_trend_signals env (get_series d ticker interval) = Inr tre \<and>
        calculate_momentum_signals env (get_series d ticker interval) = Inr mo \<and>
        calculate_mean_reversion_signals env (get_series d ticker interval) = Inr mr \<and>
        calculate_volatility_signals env (get_series d ticker interval) = Inr vo \<and>
        weighted_signal_combination env
          [(''rsi_overbought_oversold'', mr), (''rsi_divergence'', tre),
           (''rsi_trend_strength'', mo), (''rsi_volatility'', vo), (''momentum'', mo)]
          rsi_strategy_weights = Inr c \<and>
        label_detail env mr = Inr e1 \<and> label_detail env tre = Inr e2 \<and>
        label_detail env mo = Inr e3 \<and> label_detail env vo = Inr e4 \<and>
        r = (JObj [(''signal'', JStr (signal_value (consensus_signal c))),
                   (''confidence'', JInt (py_round (consensus_confidence c * 100))),
                   (''strategy_signals'',
                      JObj [(''rsi_overbought_oversold'', e1), (''rsi_divergence'', e2),
                            (''rsi_trend_strength'', e3), (''rsi_volatility'', e4),
                            (''momentum'', e3)])],
             tr @ adapter_calls (get_series d ticker interval)))"
  unfolding rsi_pair_def Let_def adapter_calls_def
  by (auto simp: bindE_eq_Inr invoke_eq_Inr)

section \<open>The loops\<close>

lemma store_record_eq_Inr:
  "store_record t k rec a = Inr a' \<longleftrightarrow>
     (\<exists>inner. map_of a t = Some inner \<and> a' = AList.update t (AList.update k rec inner) a)"
  by (auto simp: store_record_def split: option.splits)

lemma update_present_keys:
  "map_of a t = Some v \<Longrightarrow> map fst (AList.update t w a) = map fst a"
  by (auto simp: update_keys dest: map_of_SomeD intro: rev_image_eqI)

lemma interval_loop_result:
  assumes "interval_loop body env d t is (a, tr) = Inr (a', tr')"
    and "map_of a t = Some inner"
    and body: "\<forall>t i tr rec tr'. body env d t i tr = Inr (rec, tr')
                 \<longrightarrow> tr' = tr @ adapter_calls (get_series d t i) \<and> Q t (interval_value i) rec"
  shows "\<exists>inner'. map_of a' = (map_of a)(t \<mapsto> inner') \<and> map fst a' = map fst a
     \<and> fst ` set inner' = fst ` set inner \<union> interval_value ` set is
     \<and> (distinct (map fst inner) \<longrightarrow> distinct (map fst inner'))
     \<and> (\<forall>k rec. map_of inner' k = Some rec \<longrightarrow> map_of inner k = Some rec \<or> Q t k rec)
     \<and> tr' = tr @ concat (map (\<lambda>i. adapter_calls (get_series d t i)) is)"
  using assms(1,2)
proof (induction "is" arbitrary: a tr inner)
  case Nil
  then have "a' = a" "tr' = tr" by simp_all
  moreover have "map_of a = (map_of a)(t \<mapsto> inner)" using Nil.prems(2) by (simp add: map_upd_triv)
  ultimately show ?case by (intro exI[of _ inner]) simp
next
  case (Cons i rest)
  from Cons.prems(1) obtain rec tr1 a1 where
    b: "body env d t i tr = Inr (rec, tr1)" and
    s: "store_record t (interval_value i) rec a = Inr a1" and
    r: "interval_loop body env d t rest (a1, tr1) = Inr (a', tr')"
    by (auto simp: bindE_eq_Inr)
  let ?inner1 = "AList.update (interval_value i) rec inner"
  from s Cons.prems(2) have a1: "a1 = AList.update t ?inner1 a"
    by (simp add: store_record_eq_Inr)
  have m1: "map_of a1 = (map_of a)(t \<mapsto> ?inner1)" by (simp add: a1 update_conv')
  have k1: "map fst a1 = map fst a" using Cons.prems(2) by (simp add: a1 update_present_keys)
  have t1: "tr1 = tr @ adapter_calls (get_series d t i)" using b body by blast
  have q1: "Q t (interval_value i) rec" using b body by blast
  from m1 have "map_of a1 t = Some ?inner1" by simp
  from Cons.IH[OF r this] obtain inner' where
    i1: "map_of a' = (map_of a1)(t \<mapsto> inner')" and
    i2: "map fst a' = map fst a1" and
    i3: "fst ` set inner' = fst ` set ?inner1 \<union> interval_value ` set rest" and
    i4: "distinct (map fst ?inner1) \<longrightarrow> distinct (map fst inner')" and
    i5: "\<forall>k rec'. map_of inner' k = Some rec' \<longrightarrow> map_of ?inner1 k = Some rec' \<or> Q t k rec'" and
    i6: "tr' = tr1 @ concat (map (\<lambda>i. adapter_calls (get_series d t i)) rest)"
    by blast
  have "map_of a' = (map_of a)(t \<mapsto> inner')" using i1 m1 by simp
  moreover have "map fst a' = map fst a" using i2 k1 by simp
  moreover have "fst ` set inner' = fst ` set inner \<union> interval_value ` set (i # rest)"
    using i3 by (simp add: dom_update)
  moreover have "distinct (map fst inner) \<longrightarrow> distinct (map fst inner')"
    using i4 by (simp add: distinct_update)
  moreover have "\<forall>k rec'. map_of inner' k = Some rec' \<longrightarrow> map_of inner k = Some rec' \<or> Q t k rec'"
  proof (intro allI impI)
    fix k rec' assume "map_of inner' k = Some rec'"
    with i5 have "map_of ?inner1 k = Some rec' \<or> Q t k rec'" by blast
    then show "map_of inner k = Some rec' \<or> Q t k rec'"
      using q1 by (auto simp: update_conv' split: if_splits)
  qed
  moreover have "tr' = tr @ concat (map (\<lambda>i. adapter_calls (get_series d t i)) (i # rest))"
    using i6 t1 by simp
  ultimately show ?case by blast
qed


lemma ticker_loop_result:
  assumes "ticker_loop body env d ts is (a, tr) = Inr (a', tr')"
    and "set ts \<subseteq> fst ` set a"
    and body: "\<forall>t i tr rec tr'. body env d t i tr = Inr (rec, tr')
                 \<longrightarrow> tr' = tr @ adapter_calls (get_series d t i) \<and> Q t (interval_value i) rec"
  shows "map fst a' = map fst a
     \<and> (\<forall>t inner. map_of a t = Some inner \<longrightarrow>
           (\<exists>inner'. map_of a' t = Some inner'
              \<and> fst ` set inner' =
                  fst ` set inner \<union> (if t \<in> set ts then interval_value ` set is else {})
              \<and> (distinct (map fst inner) \<longrightarrow> distinct (map fst inner'))
              \<and> (\<forall>k rec. map_of inner' k = Some rec \<longrightarrow> map_of inner k = Some rec \<or> Q t k rec)))
     \<and> tr' = tr @ concat (map (\<lambda>t. concat (map (\<lambda>i. adapter_calls (get_series d t i)) is)) ts)"
  using assms(1,2)
proof (induction ts arbitrary: a tr)
  case Nil
  then show ?case by auto
next
  case (Cons t rest)
  from Cons.prems(1) obtain a1 tr1 where
    l: "interval_loop body env d t is (a, tr) = Inr (a1, tr1)" and
    r: "ticker_loop body env d rest is (a1, tr1) = Inr (a', tr')"
    by (auto simp: bindE_eq_Inr)
  from Cons.prems(2) obtain inner0 where in0: "map_of a t = Some inner0"
    by (cases "map_of a t") (auto simp: map_of_eq_None_iff)
  from interval_loop_result[OF l in0 body]
  obtain inner1 where
    j1: "map_of a1 = (map_of a)(t \<mapsto> inner1)" and
    j2: "map fst a1 = map fst a" and
    j3: "fst ` set inner1 = fst ` set inner0 \<union> interval_value ` set is" and
    j4: "distinct (map fst inner0) \<longrightarrow> distinct (map fst inner1)" and
    j5: "\<forall>k rec. map_of inner1 k = Some rec \<longrightarrow> map_of inner0 k = Some rec \<or> Q t k rec" and
    j6: "tr1 = tr @ concat (map (\<lambda>i. adapter_calls (get_series d t i)) is)"
    by blast
  have sub: "set rest \<subseteq> fst ` set a1"
    using Cons.prems(2) j2 by (metis list.set_map set_subset_Cons subset_trans)
  note IH = Cons.IH[OF r sub]
  have k: "map fst a' = map fst a" using IH j2 by simp
  have tr: "tr' = tr @ concat (map (\<lambda>t. concat (map (\<lambda>i. adapter_calls (get_series d t i)) is)) (t # rest))"
    using IH j6 by simp
  have inner: "\<exists>inner'. map_of a' u = Some inner'
              \<and> fst ` set inner' =
                  fst ` set inner \<union> (if u \<in> set (t # rest) then interval_value ` set is else {})
              \<and> (distinct (map fst inner) \<longrightarrow> distinct (map fst inner'))
              \<and> (\<forall>k rec. map_of inner' k = Some rec \<longrightarrow> map_of inner k = Some rec \<or> Q u k rec)"
    if u: "map_of a u = Some inner" for u inner
  proof (cases "u = t")
    case True
    with u in0 have eq: "inner = inner0" by simp
    have "map_of a1 u = Some inner1" using j1 True by simp
    with IH obtain inner' where
      p1: "map_of a' u = Some inner'" and
      p2: "fst ` set inner' = fst ` set inner1 \<union> (if u \<in> set rest then interval_value ` set is else {})" and
      p3: "distinct (map fst inner1) \<longrightarrow> distinct (map fst inner')" and
      p4: "\<forall>k rec. map_of inner' k = Some rec \<longrightarrow> map_of inner1 k = Some rec \<or> Q u k rec"
      by blast
    have "fst ` set inner' = fst ` set inner \<union> (if u \<in> set (t # rest) then interval_value ` set is else {})"
      using p2 j3 eq True by auto
    moreover have "distinct (map fst inner) \<longrightarrow> distinct (map fst inner')"
      using p3 j4 eq by simp
    moreover have "\<forall>k rec. map_of inner' k = Some rec \<longrightarrow> map_of inner k = Some rec \<or> Q u k rec"
      using p4 j5 eq True by blast
    ultimately show ?thesis using p1 by blast
  next
    case False
    then have "map_of a1 u = Some inner" using j1 u by simp
    with IH obtain inner' where
      p1: "map_of a' u = Some inner'" and
      p2: "fst ` set inner' = fst ` set inner \<union> (if u \<in> set rest then interval_value ` set is else {})" and
      p3: "distinct (map fst inner) \<longrightarrow> distinct (map fst inner')" and
      p4: "\<forall>k rec. map_of inner' k = Some rec \<longrightarrow> map_of inner k = Some rec \<or> Q u k rec"
      by blast
    have "fst ` set inner' = fst ` set inner \<union> (if u \<in> set (t # rest) then interval_value ` set is else {})"
      using p2 False by auto
    then show ?thesis using p1 p3 p4 by blast
  qed
  show ?case using k tr inner by blast
qed

lemma init_report_fold:
  "map_of (fold (\<lambda>ticker analysis. AList.update ticker [] analysis) ts a) =
     (\<lambda>t. if t \<in> set ts then Some [] else map_of a t)"
  by (induction ts arbitrary: a) (auto simp: update_conv' fun_eq_iff)

lemma init_report_keys_fold:
  "fst ` set (fold (\<lambda>ticker analysis. AList.update ticker [] analysis) ts a) = fst ` set a \<union> set ts"
  by (induction ts arbitrary: a) (auto simp: dom_update)

lemma init_report_distinct_fold:
  "distinct (map fst a) \<Longrightarrow>
   distinct (map fst (fold (\<lambda>ticker analysis. AList.update ticker [] analysis) ts a))"
  by (induction ts arbitrary: a) (auto simp: distinct_update)

lemma init_report_lookup: "map_of (init_report ts) t = (if t \<in> set ts then Some [] else None)"
  by (simp add: init_report_def init_report_fold)

lemma init_report_keys: "set (map fst (init_report ts)) = set ts"
  using init_report_keys_fold[of ts "[]"] by (simp add: init_report_def)

lemma init_report_distinct: "distinct (map fst (init_report ts))"
  by (simp add: init_report_def init_report_distinct_fold)

lemma json_keys_report [simp]: "json_keys (report_json a) = map fst a"
  by (simp add: report_json_def comp_def case_prod_beta)

lemma json_get_report [simp]: "json_get (report_json a) t = map_option JObj (map_of a t)"
  by (simp add: report_json_def map_of_map)

lemma interval_loop_keys:
  "interval_loop body env d t is (a, tr) = Inr (a', tr') \<Longrightarrow> map fst a' = map fst a"
proof (induction "is" arbitrary: a tr)
  case Nil
  then show ?case by simp
next
  case (Cons i rest)
  from Cons.prems obtain rec tr1 a1 where
    s: "store_record t (interval_value i) rec a = Inr a1" and
    r: "interval_loop body env d t rest (a1, tr1) = Inr (a', tr')"
    by (auto simp: bindE_eq_Inr)
  from s have "map fst a1 = map fst a"
    by (auto simp: store_record_eq_Inr update_present_keys)
  with Cons.IH[OF r] show ?case by simp
qed

lemma interval_loop_total:
  assumes "\<forall>i tr. \<exists>r. body env d t i tr = Inr r" and "t \<in> fst ` set a"
  shows "\<exists>r. interval_loop body env d t is (a, tr) = Inr r"
  using assms(2)
proof (induction "is" arbitrary: a tr)
  case Nil
  then show ?case by simp
next
  case (Cons i rest)
  from assms(1) obtain rec tr1 where b: "body env d t i tr = Inr (rec, tr1)" by (metis surj_pair)
  from Cons.prems obtain inner where m: "map_of a t = Some inner"
    by (cases "map_of a t") (auto simp: map_of_eq_None_iff)
  let ?a1 = "AList.update t (AList.update (interval_value i) rec inner) a"
  have s: "store_record t (interval_value i) rec a = Inr ?a1"
    using m by (simp add: store_record_eq_Inr)
  have "t \<in> fst ` set ?a1" by (simp add: dom_update)
  from Cons.IH[OF this] obtain r where "interval_loop body env d t rest (?a1, tr1) = Inr r" by blast
  with b s show ?case by (simp add: bindE_eq_Inr)
qed

lemma ticker_loop_total:
  assumes "\<forall>t i tr. \<exists>r. body env d t i tr = Inr r" and "set ts \<subseteq> fst ` set a"
  shows "\<exists>r. ticker_loop body env d ts is (a, tr) = Inr r"
  using assms(2)
proof (induction ts arbitrary: a tr)
  case Nil
  then show ?case by simp
next
  case (Cons t rest)
  from Cons.prems have "t \<in> fst ` set a" by simp
  with assms(1) interval_loop_total[of body env d t a "is" tr]
  obtain a1 tr1 where l: "interval_loop body env d t is (a, tr) = Inr (a1, tr1)"
    by (metis surj_pair)
  then have "map fst a1 = map fst a" by (rule interval_loop_keys)
  with Cons.prems have "set rest \<subseteq> fst ` set a1"
    by (metis list.set_map set_subset_Cons subset_trans)
  from Cons.IH[OF this] obtain r where "ticker_loop body env d rest is (a1, tr1) = Inr r" by blast
  with l show ?case by (simp add: bindE_eq_Inr)
qed

lemma get_series_name [simp]: "get_series (d\<lparr>name := n\<rparr>) = get_series d"
  by (simp add: get_series_def fun_eq_iff)

lemma run_strategy_eq_Inr:
  "run_strategy nm title body env st = Inr out \<longleftrightarrow>
     (\<exists>analysis tr str flag sigs.
        ticker_loop body env ((data st)\<lparr>name := Some nm\<rparr>) (get_tickers (data st))
          (get_intervals (data st)) (init_report (get_tickers (data st)), []) = Inr (analysis, tr) \<and>
        json_dumps env (report_json analysis) = Inr str \<and>
        metadata st ''show_reasoning'' = Some flag \<and>
        analyst_signals (data st) = Some sigs \<and>
        out = \<lparr>returned_messages = [\<lparr>content = str, message_name = ''technical_analyst_agent''\<rparr>],
               returned_data = (data st)\<lparr>name := Some nm,
                 analyst_signals := Some (sigs(''technical_analyst_agent'' \<mapsto> report_json analysis))\<rparr>,
               state_after = st\<lparr>data := (data st)\<lparr>name := Some nm,
                 analyst_signals := Some (sigs(''technical_analyst_agent'' \<mapsto> report_json analysis))\<rparr>\<rparr>,
               effects = (if flag then tr @ [Shown (report_json analysis) title] else tr)\<rparr>)"
  unfolding run_strategy_def Let_def
  by (auto simp: bindE_eq_Inr get_tickers_def get_intervals_def split: option.splits)

section \<open>Rounding and the shape of a record\<close>



lemma py_round_of_int: "py_round (of_int n) = n"
  by (simp add: py_round_def)




lemma run_strategy_result:
  assumes run: "run_strategy nm title body env st = Inr out"
    and body: "\<forall>d t i tr rec tr'. body env d t i tr = Inr (rec, tr')
                 \<longrightarrow> tr' = tr @ adapter_calls (get_series d t i) \<and> Q t (interval_value i) rec"
  shows "\<exists>analysis sigs str flag.
      analyst_signals (data st) = Some sigs \<and>
      metadata st ''show_reasoning'' = Some flag \<and>
      json_dumps env (report_json analysis) = Inr str \<and>
      out = \<lparr>returned_messages = [\<lparr>content = str, message_name = ''technical_analyst_agent''\<rparr>],
             returned_data = (data st)\<lparr>name := Some nm,
               analyst_signals := Some (sigs(''technical_analyst_agent'' \<mapsto> report_json analysis))\<rparr>,
             state_after = st\<lparr>data := (data st)\<lparr>name := Some nm,
               analyst_signals := Some (sigs(''technical_analyst_agent'' \<mapsto> report_json analysis))\<rparr>\<rparr>,
             effects =
               concat (map (\<lambda>t. concat (map (\<lambda>i. adapter_calls (get_series (data st) t i))
                                            (get_intervals (data st))))
                           (get_tickers (data st)))
               @ (if flag then [Shown (report_json analysis) title] else [])\<rparr> \<and>
      set (map fst analysis) = set (get_tickers (data st)) \<and>
      distinct (map fst analysis) \<and>
      (\<forall>t \<in> set (get_tickers (data st)).
         \<exists>inner. map_of analysis t = Some inner \<and>
           fst ` set inner = interval_value ` set (get_intervals (data st)) \<and>
           distinct (map fst inner) \<and>
           (\<forall>k rec. map_of inner k = Some rec \<longrightarrow> Q t k rec))"
proof -
  let ?d = "(data st)\<lparr>name := Some nm\<rparr>"
  let ?ts = "get_tickers (data st)"
  let ?ivs = "get_intervals (data st)"
  from run obtain analysis tr str flag sigs where
    loop: "ticker_loop body env ?d ?ts ?ivs (init_report ?ts, []) = Inr (analysis, tr)" and
    dumps: "json_dumps env (report_json analysis) = Inr str" and
    flag: "metadata st ''show_reasoning'' = Some flag" and
    sigs: "analyst_signals (data st) = Some sigs" and
    out: "out = \<lparr>returned_messages = [\<lparr>content = str, message_name = ''technical_analyst_agent''\<rparr>],
               returned_data = (data st)\<lparr>name := Some nm,
                 analyst_signals := Some (sigs(''technical_analyst_agent'' \<mapsto> report_json analysis))\<rparr>,
               state_after = st\<lparr>data := (data st)\<lparr>name := Some nm,
                 analyst_signals := Some (sigs(''technical_analyst_agent'' \<mapsto> report_json analysis))\<rparr>\<rparr>,
               effects = (if flag then tr @ [Shown (report_json analysis) title] else tr)\<rparr>"
    unfolding run_strategy_eq_Inr by blast
  have sub: "set ?ts \<subseteq> fst ` set (init_report ?ts)"
    using init_report_keys[of ?ts] by simp
  have body': "\<forall>t i tr rec tr'. body env ?d t i tr = Inr (rec, tr')
                 \<longrightarrow> tr' = tr @ adapter_calls (get_series ?d t i) \<and> Q t (interval_value i) rec"
    using body by blast
  from ticker_loop_result[OF loop sub body'] have
    k: "map fst analysis = map fst (init_report ?ts)" and
    inner: "\<forall>t inner. map_of (init_report ?ts) t = Some inner \<longrightarrow>
           (\<exists>inner'. map_of analysis t = Some inner'
              \<and> fst ` set inner' =
                  fst ` set inner \<union> (if t \<in> set ?ts then interval_value ` set ?ivs else {})
              \<and> (distinct (map fst inner) \<longrightarrow> distinct (map fst inner'))
              \<and> (\<forall>k rec. map_of inner' k = Some rec \<longrightarrow> map_of inner k = Some rec \<or> Q t k rec))" and
    tr: "tr = [] @ concat (map (\<lambda>t. concat (map (\<lambda>i. adapter_calls (get_series ?d t i)) ?ivs)) ?ts)"
    by blast+
  have keys: "set (map fst analysis) = set ?ts" "distinct (map fst analysis)"
    using k init_report_keys[of ?ts] init_report_distinct[of ?ts] by simp_all
  have recs: "\<exists>inner. map_of analysis t = Some inner \<and>
           fst ` set inner = interval_value ` set ?ivs \<and>
           distinct (map fst inner) \<and>
           (\<forall>k rec. map_of inner k = Some rec \<longrightarrow> Q t k rec)" if t: "t \<in> set ?ts" for t
  proof -
    from t have "map_of (init_report ?ts) t = Some []" by (simp add: init_report_lookup)
    with inner obtain inner' where
      "map_of analysis t = Some inner'"
      "fst ` set inner' = fst ` set ([] :: (string \<times> json) list)
          \<union> (if t \<in> set ?ts then interval_value ` set ?ivs else {})"
      "distinct (map fst ([] :: (string \<times> json) list)) \<longrightarrow> distinct (map fst inner')"
      "\<forall>k rec. map_of inner' k = Some rec \<longrightarrow> map_of [] k = Some rec \<or> Q t k rec"
      by blast
    with t show ?thesis by (intro exI[of _ inner']) simp
  qed
  have eff: "(if flag then tr @ [Shown (report_json analysis) title] else tr) =
      concat (map (\<lambda>t. concat (map (\<lambda>i. adapter_calls (get_series (data st) t i)) ?ivs)) ?ts)
        @ (if flag then [Shown (report_json analysis) title] else [])"
    using tr by simp
  show ?thesis
    using sigs flag dumps out keys recs unfolding eff by blast
qed

lemma ema_pair_trace:
  "ema_pair env d t i tr = Inr (rec, tr') \<Longrightarrow> tr' = tr @ adapter_calls (get_series d t i)"
  by (auto simp: ema_pair_eq_Inr)

lemma rsi_pair_trace:
  "rsi_pair env d t i tr = Inr (rec, tr') \<Longrightarrow> tr' = tr @ adapter_calls (get_series d t i)"
  by (auto simp: rsi_pair_eq_Inr)



section \<open>The strategies return\<close>

lemma ema_pair_total:
  assumes "never_raises env"
  shows "\<exists>r. ema_pair env d t i tr = Inr r"
proof -
  let ?df = "get_series d t i"
  from assms obtain tre mo mr vo where
    a: "adapter_of env Trend ?df = Inr tre" "adapter_of env Momentum ?df = Inr mo"
       "adapter_of env MeanReversion ?df = Inr mr" "adapter_of env Volatility ?df = Inr vo"
    unfolding never_raises_def by metis
  let ?signals = "[(''ema_crossovers'', tre), (''ema_slope'', mo), (''price_to_ema'', mr),
                   (''multi_timeframe'', tre), (''ema_volatility'', vo)]"
  have "map fst ?signals = ema_labels" by (simp add: ema_labels_def ema_strategy_weights_def)
  with assms obtain c where
    c: "weighted_signal_combination env ?signals ema_strategy_weights = Inr c"
    unfolding never_raises_def by blast
  from assms obtain m1 m2 m3 m5 where
    "normalize_pandas env (metrics tre) = Inr m1" "normalize_pandas env (metrics mo) = Inr m2"
    "normalize_pandas env (metrics mr) = Inr m3" "normalize_pandas env (metrics vo) = Inr m5"
    unfolding never_raises_def by metis
  then have "\<exists>e1 e2 e3 e5. label_detail env tre = Inr e1 \<and> label_detail env mo = Inr e2 \<and>
      label_detail env mr = Inr e3 \<and> label_detail env vo = Inr e5"
    by (simp add: label_detail_eq_Inr)
  with a c show ?thesis unfolding ema_pair_eq_Inr by auto
qed

lemma rsi_pair_total:
  assumes "never_raises env"
  shows "\<exists>r. rsi_pair env d t i tr = Inr r"
proof -
  let ?df = "get_series d t i"
  from assms obtain tre mo mr vo where
    a: "adapter_of env Trend ?df = Inr tre" "adapter_of env Momentum ?df = Inr mo"
       "adapter_of env MeanReversion ?df = Inr mr" "adapter_of env Volatility ?df = Inr vo"
    unfolding never_raises_def by metis
  let ?signals = "[(''rsi_overbought_oversold'', mr), (''rsi_divergence'', tre),
           (''rsi_trend_strength'', mo), (''rsi_volatility'', vo), (''momentum'', mo)]"
  have "map fst ?signals = rsi_labels" by (simp add: rsi_labels_def rsi_strategy_weights_def)
  with assms obtain c where
    c: "weighted_signal_combination env ?signals rsi_strategy_weights = Inr c"
    unfolding never_raises_def by blast
  from assms obtain m1 m2 m3 m5 where
    "normalize_pandas env (metrics tre) = Inr m1" "normalize_pandas env (metrics mo) = Inr m2"
    "normalize_pandas env (metrics mr) = Inr m3" "normalize_pandas env (metrics vo) = Inr m5"
    unfolding never_raises_def by metis
  then have "\<exists>e1 e2 e3 e4. label_detail env mr = Inr e1 \<and> label_detail env tre = Inr e2 \<and>
      label_detail env mo = Inr e3 \<and> label_detail env vo = Inr e4"
    by (simp add: label_detail_eq_Inr)
  with a c show ?thesis unfolding rsi_pair_eq_Inr by auto
qed

lemma run_strategy_total:
  assumes "\<forall>d t i tr. \<exists>r. body env d t i tr = Inr r"
    and "\<forall>j. \<exists>s. json_dumps env j = Inr s"
    and "metadata st ''show_reasoning'' \<noteq> None"
    and "analyst_signals (data st) \<noteq> None"
  shows "\<exists>out. run_strategy nm title body env st = Inr out"
proof -
  let ?d = "(data st)\<lparr>name := Some nm\<rparr>"
  let ?ts = "get_tickers (data st)"
  have sub: "set ?ts \<subseteq> fst ` set (init_report ?ts)"
    using init_report_keys[of ?ts] by simp
  from assms(1) have "\<forall>t i tr. \<exists>r. body env ?d t i tr = Inr r" by blast
  from ticker_loop_total[where body = body and env = env and d = "?d", OF this sub]
  obtain analysis tr where
    "ticker_loop body env ?d ?ts (get_intervals (data st)) (init_report ?ts, []) = Inr (analysis, tr)"
    by (metis surj_pair)
  moreover from assms(2) obtain s where "json_dumps env (report_json analysis) = Inr s" by blast
  moreover from assms(3) obtain flag where "metadata st ''show_reasoning'' = Some flag" by blast
  moreover from assms(4) obtain sigs where "analyst_signals (data st) = Some sigs" by blast
  ultimately show ?thesis unfolding run_strategy_eq_Inr by blast
qed

lemma strategies_total:
  assumes "never_raises env"
    and "metadata st ''show_reasoning'' \<noteq> None"
    and "analyst_signals (data st) \<noteq> None"
  shows "\<exists>out. EMAStrategy_call env st = Inr out" and "\<exists>out. RSIStrategy_call env st = Inr out"
proof -
  have d: "\<forall>j. \<exists>s. json_dumps env j = Inr s" using assms(1) unfolding never_raises_def by blast
  have "\<forall>d t i tr. \<exists>r. ema_pair env d t i tr = Inr r" using assms(1) ema_pair_total by blast
  from run_strategy_total[where body = ema_pair and env = env, OF this d assms(2,3)]
  show "\<exists>out. EMAStrategy_call env st = Inr out" unfolding EMAStrategy_call_def .
  have "\<forall>d t i tr. \<exists>r. rsi_pair env d t i tr = Inr r" using assms(1) rsi_pair_total by blast
  from run_strategy_total[where body = rsi_pair and env = env, OF this d assms(2,3)]
  show "\<exists>out. RSIStrategy_call env st = Inr out" unfolding RSIStrategy_call_def .
qed

lemma strategy_keys:
  assumes "run_strategy nm title body env st = Inr out"
    and "\<forall>d t i tr rec tr'. body env d t i tr = Inr (rec, tr')
           \<longrightarrow> tr' = tr @ adapter_calls (get_series d t i)"
  shows "\<exists>report. stored_report out = Some report \<and>
           set (json_keys report) = set (get_tickers (data st)) \<and> distinct (json_keys report) \<and>
           (\<forall>ticker \<in> set (get_tickers (data st)).
              \<exists>inner. json_get report ticker = Some inner \<and>
                set (json_keys inner) = interval_value ` set (get_intervals (data st)) \<and>
                distinct (json_keys inner))"
proof -
  from assms(2) have "\<forall>d t i tr rec tr'. body env d t i tr = Inr (rec, tr')
           \<longrightarrow> tr' = tr @ adapter_calls (get_series d t i) \<and> (\<lambda>_ _ _. True) t (interval_value i) rec"
    by blast
  from run_strategy_result[where Q = "\<lambda>_ _ _. True", OF assms(1) this] obtain analysis sigs s flag where
    out: "out = \<lparr>returned_messages = [\<lparr>content = s, message_name = ''technical_analyst_agent''\<rparr>],
             returned_data = (data st)\<lparr>name := Some nm,
               analyst_signals := Some (sigs(''technical_analyst_agent'' \<mapsto> report_json analysis))\<rparr>,
             state_after = st\<lparr>data := (data st)\<lparr>name := Some nm,
               analyst_signals := Some (sigs(''technical_analyst_agent'' \<mapsto> report_json analysis))\<rparr>\<rparr>,
             effects =
               concat (map (\<lambda>t. concat (map (\<lambda>i. adapter_calls (get_series (data st) t i))
                                            (get_intervals (data st))))
                           (get_tickers (data st)))
               @ (if flag then [Shown (report_json analysis) title] else [])\<rparr>" and
    k: "set (map fst analysis) = set (get_tickers (data st))" "distinct (map fst analysis)" and
    i: "\<forall>t \<in> set (get_tickers (data st)).
         \<exists>inner. map_of analysis t = Some inner \<and>
           fst ` set inner = interval_value ` set (get_intervals (data st)) \<and>
           distinct (map fst inner) \<and>
           (\<forall>k rec. map_of inner k = Some rec \<longrightarrow> True)"
    by blast
  have "stored_report out = Some (report_json analysis)"
    by (simp add: out stored_report_def)
  moreover have "\<forall>ticker \<in> set (get_tickers (data st)).
              \<exists>inner. json_get (report_json analysis) ticker = Some inner \<and>
                set (json_keys inner) = interval_value ` set (get_intervals (data st)) \<and>
                distinct (json_keys inner)"
  proof
    fix t assume "t \<in> set (get_tickers (data st))"
    with i obtain inner where "map_of analysis t = Some inner"
      "fst ` set inner = interval_value ` set (get_intervals (data st))" "distinct (map fst inner)"
      by blast
    then show "\<exists>inner. json_get (report_json analysis) t = Some inner \<and>
                set (json_keys inner) = interval_value ` set (get_intervals (data st)) \<and>
                distinct (json_keys inner)"
      by (intro exI[of _ "JObj inner"]) simp
  qed
  ultimately show ?thesis using k by (intro exI[of _ "report_json analysis"]) simp
qed

section \<open>The example instance\<close>

lemma total_weight_ema:
  assumes "map fst signals = ema_labels"
  shows "total_weight ema_strategy_weights signals = 1"
proof -
  from assms obtain s1 s2 s3 s4 s5 where
    "signals = [(''ema_crossovers'', s1), (''ema_slope'', s2), (''price_to_ema'', s3),
                (''multi_timeframe'', s4), (''ema_volatility'', s5)]"
    by (auto simp: ema_labels_def ema_strategy_weights_def map_eq_Cons_conv)
  then show ?thesis
    by (simp add: total_weight_def usable_signals_def weight_of_def ema_strategy_weights_def)
qed

lemma total_weight_rsi:
  assumes "map fst signals = rsi_labels"
  shows "total_weight rsi_strategy_weights signals = 1"
proof -
  from assms obtain s1 s2 s3 s4 s5 where
    "signals = [(''rsi_overbought_oversold'', s1), (''rsi_divergence'', s2),
                (''rsi_trend_strength'', s3), (''rsi_volatility'', s4), (''momentum'', s5)]"
    by (auto simp: rsi_labels_def rsi_strategy_weights_def map_eq_Cons_conv)
  then show ?thesis
    by (simp add: total_weight_def usable_signals_def weight_of_def rsi_strategy_weights_def)
qed

lemma fusion_engine_eq_Inr:
  "fusion_engine th signals profile = Inr c \<longleftrightarrow>
     total_weight profile signals \<noteq> 0 \<and>
     c = \<lparr>consensus_signal =
            (if th < weighted_sum profile signals / total_weight profile signals then bullish
             else if weighted_sum profile signals / total_weight profile signals < - th then bearish
             else neutral),
          consensus_confidence =
            min 1 (max 0 \<bar>weighted_sum profile signals / total_weight profile signals\<bar>)\<rparr>"
  by (auto simp: fusion_engine_def Let_def)


lemma never_raises_example: "never_raises example_env"
proof -
  have "\<exists>t. adapter_of example_env a df = Inr t" for a df
    by (cases a) (simp_all add: example_env_def example_adapter_def)
  moreover have "\<exists>c. weighted_signal_combination example_env signals ema_strategy_weights = Inr c"
    if "map fst signals = ema_labels" for signals :: "(string \<times> json SignalTriple) list"
    using total_weight_ema[OF that] by (simp add: example_env_def fusion_engine_eq_Inr)
  moreover have "\<exists>c. weighted_signal_combination example_env signals rsi_strategy_weights = Inr c"
    if "map fst signals = rsi_labels" for signals :: "(string \<times> json SignalTriple) list"
    using total_weight_rsi[OF that] by (simp add: example_env_def fusion_engine_eq_Inr)
  moreover have "\<exists>j. normalize_pandas example_env m = Inr j" for m
    by (simp add: example_env_def)
  moreover have "\<exists>s. json_dumps example_env j = Inr s" for j
    by (simp add: example_env_def)
  ultimately show ?thesis unfolding never_raises_def by blast
qed


lemma example_state_simps:
  "get_tickers (data example_state) = [''AAA'', ''BBB'']"
  "get_intervals (data example_state) = [Interval ''1d'']"
  "metadata example_state ''show_reasoning'' = Some False"
  "analyst_signals (data example_state) = Some [''sentiment_agent'' \<mapsto> JObj []]"
  "name (data example_state) = None"
  by (simp_all add: example_state_def example_data_def get_tickers_def get_intervals_def)

section \<open>What a returning call leaves\<close>

lemma strategy_records:
  assumes run: "run_strategy nm title body env st = Inr out"
    and body: "\<forall>d t i tr rec tr'. body env d t i tr = Inr (rec, tr')
                 \<longrightarrow> tr' = tr @ adapter_calls (get_series d t i) \<and> Q t (interval_value i) rec"
    and t: "t \<in> set (get_tickers (data st))"
    and i: "i \<in> set (get_intervals (data st))"
  shows "\<exists>rec. reported_record out t (interval_value i) = Some rec \<and> Q t (interval_value i) rec"
    and "set (adapter_calls (get_series (data st) t i)) \<subseteq> set (effects out)"
proof -
  from run_strategy_result[where Q = Q, OF run body] obtain analysis sigs s flag where
    out: "out = \<lparr>returned_messages = [\<lparr>content = s, message_name = ''technical_analyst_agent''\<rparr>],
             returned_data = (data st)\<lparr>name := Some nm,
               analyst_signals := Some (sigs(''technical_analyst_agent'' \<mapsto> report_json analysis))\<rparr>,
             state_after = st\<lparr>data := (data st)\<lparr>name := Some nm,
               analyst_signals := Some (sigs(''technical_analyst_agent'' \<mapsto> report_json analysis))\<rparr>\<rparr>,
             effects =
               concat (map (\<lambda>t. concat (map (\<lambda>i. adapter_calls (get_series (data st) t i))
                                            (get_intervals (data st))))
                           (get_tickers (data st)))
               @ (if flag then [Shown (report_json analysis) title] else [])\<rparr>" and
    recs: "\<forall>t \<in> set (get_tickers (data st)).
         \<exists>inner. map_of analysis t = Some inner \<and>
           fst ` set inner = interval_value ` set (get_intervals (data st)) \<and>
           distinct (map fst inner) \<and>
           (\<forall>k rec. map_of inner k = Some rec \<longrightarrow> Q t k rec)"
    by blast
  from recs t obtain inner where
    inner: "map_of analysis t = Some inner"
      "fst ` set inner = interval_value ` set (get_intervals (data st))"
      "\<forall>k rec. map_of inner k = Some rec \<longrightarrow> Q t k rec"
    by blast
  from inner(2) i have "interval_value i \<in> fst ` set inner" by blast
  then obtain rec where rec: "map_of inner (interval_value i) = Some rec"
    by (cases "map_of inner (interval_value i)") (auto simp: map_of_eq_None_iff)
  have "reported_record out t (interval_value i) = Some rec"
    using inner(1) rec by (simp add: out reported_record_def stored_report_def record_at_def)
  with inner(3) rec
  show "\<exists>rec. reported_record out t (interval_value i) = Some rec \<and> Q t (interval_value i) rec"
    by blast
  show "set (adapter_calls (get_series (data st) t i)) \<subseteq> set (effects out)"
    using t i by (auto simp: out)
qed



lemma strategy_outcome:
  assumes "strategy = EMAStrategy_call \<and> nm = ''EMAStrategy'' \<and> title = ''EMA Analyst'' \<or>
           strategy = RSIStrategy_call \<and> nm = ''RSIStrategy'' \<and> title = ''RSI Analyst''"
    and "strategy env st = Inr out"
  shows "\<exists>report sigs s flag.
      analyst_signals (data st) = Some sigs \<and>
      metadata st ''show_reasoning'' = Some flag \<and>
      json_dumps env report = Inr s \<and>
      out = \<lparr>returned_messages = [\<lparr>content = s, message_name = ''technical_analyst_agent''\<rparr>],
             returned_data = (data st)\<lparr>name := Some nm,
               analyst_signals := Some (sigs(''technical_analyst_agent'' \<mapsto> report))\<rparr>,
             state_after = st\<lparr>data := (data st)\<lparr>name := Some nm,
               analyst_signals := Some (sigs(''technical_analyst_agent'' \<mapsto> report))\<rparr>\<rparr>,
             effects =
               concat (map (\<lambda>t. concat (map (\<lambda>i. adapter_calls (get_series (data st) t i))
                                            (get_intervals (data st))))
                           (get_tickers (data st)))
               @ (if flag then [Shown report title] else [])\<rparr>"
  using assms(1)
proof (elim disjE conjE)
  assume s: "strategy = EMAStrategy_call" "nm = ''EMAStrategy''" "title = ''EMA Analyst''"
  have b: "\<forall>d t i tr rec tr'. ema_pair env d t i tr = Inr (rec, tr')
           \<longrightarrow> tr' = tr @ adapter_calls (get_series d t i) \<and> (\<lambda>_ _ _. True) t (interval_value i) rec"
    using ema_pair_trace by blast
  from assms(2) have "run_strategy nm title ema_pair env st = Inr out"
    by (simp add: s EMAStrategy_call_def)
  from run_strategy_result[where Q = "\<lambda>_ _ _. True", OF this b] show ?thesis by blast
next
  assume s: "strategy = RSIStrategy_call" "nm = ''RSIStrategy''" "title = ''RSI Analyst''"
  have b: "\<forall>d t i tr rec tr'. rsi_pair env d t i tr = Inr (rec, tr')
           \<longrightarrow> tr' = tr @ adapter_calls (get_series d t i) \<and> (\<lambda>_ _ _. True) t (interval_value i) rec"
    using rsi_pair_trace by blast
  from assms(2) have "run_strategy nm title rsi_pair env st = Inr out"
    by (simp add: s RSIStrategy_call_def)
  from run_strategy_result[where Q = "\<lambda>_ _ _. True", OF this b] show ?thesis by blast
qed


section \<open>The example, evaluated\<close>

lemma py_round_numeral [simp]: "py_round (numeral n) = numeral n"
  using py_round_of_int[of "numeral n"] by simp

lemma py_round_examples:
  "py_round (107 / 2) = 54"
  "py_round (5049 / 100) = 50"
  "py_round (199 / 2) = 100"
  by code_simp+

lemma example_series:
  "get_series example_data ''AAA'' (Interval ''1d'') = [100, 101, 103]"
  "get_series example_data ''BBB'' (Interval ''1d'') = []"
  by (simp_all add: get_series_def example_data_def)

lemma example_ema_pair:
  "ema_pair example_env example_data ''AAA'' (Interval ''1d'') [] =
     Inr (JObj [(''signal'', JStr ''bullish''),
                (''confidence'', JInt 54),
                (''ema_periods'', ema_periods),
                (''strategy_signals'',
                   JObj [(''ema_crossovers'',
                            JObj [(''signal'', JStr ''bullish''), (''confidence'', JInt 80),
                                  (''metrics'', JObj [(''last'', JNum 103)])]),
                         (''ema_slope'',
                            JObj [(''signal'', JStr ''bullish''), (''confidence'', JInt 60),
                                  (''metrics'', JObj [(''last'', JNum 103)])]),
                         (''price_to_ema'',
                            JObj [(''signal'', JStr ''bearish''), (''confidence'', JInt 30),
                                  (''metrics'', JObj [(''last'', JNum 103)])]),
                         (''multi_timeframe'',
                            JObj [(''signal'', JStr ''bullish''), (''confidence'', JInt 80),
                                  (''metrics'', JObj [(''last'', JNum 103)])]),
                         (''ema_volatility'',
                            JObj [(''signal'', JStr ''neutral''), (''confidence'', JInt 50),
                                  (''metrics'', JObj [(''last'', JNum 103)])])])],
          adapter_calls [100, 101, 103])"
  unfolding ema_pair_def Let_def example_series
  by (simp add: invoke_def label_detail_def example_env_def example_adapter_def adapter_calls_def
      fusion_engine_def total_weight_def weighted_sum_def usable_signals_def
      contribution_def weight_of_def ema_strategy_weights_def py_round_examples)

lemma example_ema_returns: "\<exists>out. EMAStrategy_call example_env example_state = Inr out"
  by (rule strategies_total(1)[OF never_raises_example]) (simp_all add: example_state_simps)

lemma example_rsi_returns: "\<exists>out. RSIStrategy_call example_env example_state = Inr out"
  by (rule strategies_total(2)[OF never_raises_example]) (simp_all add: example_state_simps)

section \<open>The fusion engine of the specification\<close>

lemma weight_of_nonneg:
  assumes "\<forall>w \<in> snd ` set profile. 0 \<le> w"
  shows "0 \<le> weight_of profile label"
proof (cases "map_of profile label")
  case None
  then show ?thesis by (simp add: weight_of_def)
next
  case (Some w)
  then have "(label, w) \<in> set profile" by (rule map_of_SomeD)
  then have "w \<in> snd ` set profile" by force
  with assms have "0 \<le> w" by blast
  with Some show ?thesis by (simp add: weight_of_def)
qed

lemma usable_signals_empty:
  assumes "\<forall>w \<in> snd ` set profile. 0 \<le> w"
    and "sum_list (map (\<lambda>(label, s). weight_of profile label) signals) = 0"
  shows "usable_signals profile signals = []"
proof -
  let ?ws = "map (\<lambda>(label, s). weight_of profile label) signals"
  have "0 \<le> x" if "x \<in> set ?ws" for x
    using that weight_of_nonneg[OF assms(1)] by auto
  then have "sum_list ?ws = 0 \<longleftrightarrow> (\<forall>x \<in> set ?ws. x = 0)"
    by (rule sum_list_nonneg_eq_0_iff)
  with assms(2) have "\<forall>x \<in> set ?ws. x = 0" by blast
  then show ?thesis
    by (auto simp: usable_signals_def filter_empty_conv)
qed

lemma fusion_engine_no_usable:
  "usable_signals profile signals = [] \<Longrightarrow> fusion_engine th signals profile = Inl ConfigurationError"
  by (simp add: fusion_engine_def total_weight_def)

lemma weight_of_cong: "map_of profile' = map_of profile \<Longrightarrow> weight_of profile' = weight_of profile"
  by (simp add: weight_of_def fun_eq_iff)

lemma sums_mset:
  "weighted_sum profile signals =
     sum_mset (image_mset (contribution profile)
       (filter_mset (\<lambda>(label, s). 0 < weight_of profile label) (mset signals)))"
  "total_weight profile signals =
     sum_mset (image_mset (\<lambda>(label, s). weight_of profile label)
       (filter_mset (\<lambda>(label, s). 0 < weight_of profile label) (mset signals)))"
  by (simp_all add: weighted_sum_def total_weight_def usable_signals_def flip: sum_mset_sum_list)

lemma weight_of_scale: "weight_of (scale_profile c profile) label = c * weight_of profile label"
proof -
  have "map_of (scale_profile c profile) = map_option ((*) c) \<circ> map_of profile"
    unfolding scale_profile_def by (rule map_of_map)
  then show ?thesis by (simp add: weight_of_def split: option.splits)
qed

section \<open>The claims\<close>

text \<open>
  C1. When a strategy's \<^verbatim>\<open>__call__\<close> returns, the report it stored has exactly the requested
  tickers as its outer keys, each once, and under every ticker exactly the requested interval
  labels, each once, whatever the time series hold (present, empty or absent). It returns
  whenever the imported functions return and the state has the two keys it reads
  (\<^verbatim>\<open>metadata['show_reasoning']\<close> and \<^verbatim>\<open>data['analyst_signals']\<close>).
\<close>

theorem report_keys_exact:
  assumes "strategy = EMAStrategy_call \<or> strategy = RSIStrategy_call"
  shows "(\<forall>out. strategy env state = Inr out \<longrightarrow>
           (\<exists>report. stored_report out = Some report \<and>
              set (json_keys report) = set (get_tickers (data state)) \<and>
              distinct (json_keys report) \<and>
              (\<forall>ticker \<in> set (get_tickers (data state)).
                 \<exists>inner. json_get report ticker = Some inner \<and>
                   set (json_keys inner) = interval_value ` set (get_intervals (data state)) \<and>
                   distinct (json_keys inner))))
       \<and> (never_raises env \<and> metadata state ''show_reasoning'' \<noteq> None \<and>
          analyst_signals (data state) \<noteq> None
            \<longrightarrow> (\<exists>out. strategy env state = Inr out))"
  using assms
proof
  assume s: "strategy = EMAStrategy_call"
  have "\<forall>d t i tr rec tr'. ema_pair env d t i tr = Inr (rec, tr')
           \<longrightarrow> tr' = tr @ adapter_calls (get_series d t i)"
    using ema_pair_trace by blast
  then show ?thesis
    unfolding s using strategy_keys[of "''EMAStrategy''" "''EMA Analyst''" ema_pair env state]
      strategies_total(1)[of env state]
    by (simp add: EMAStrategy_call_def)
next
  assume s: "strategy = RSIStrategy_call"
  have "\<forall>d t i tr rec tr'. rsi_pair env d t i tr = Inr (rec, tr')
           \<longrightarrow> tr' = tr @ adapter_calls (get_series d t i)"
    using rsi_pair_trace by blast
  then show ?thesis
    unfolding s using strategy_keys[of "''RSIStrategy''" "''RSI Analyst''" rsi_pair env state]
      strategies_total(2)[of env state]
    by (simp add: RSIStrategy_call_def)
qed

theorem report_keys_exact_witness:
  "\<exists>out. EMAStrategy_call example_env example_state = Inr out \<and>
     (\<exists>report. stored_report out = Some report \<and>
        set (json_keys report) = {''AAA'', ''BBB''} \<and>
        (\<exists>inner. json_get report ''BBB'' = Some inner \<and> set (json_keys inner) = {''1d''}))"
proof -
  have s: "EMAStrategy_call = EMAStrategy_call \<or>
      (EMAStrategy_call :: (rat, json) env \<Rightarrow> rat AgentState \<Rightarrow> error + rat outcome) = RSIStrategy_call"
    by simp
  note t = report_keys_exact[OF s, of example_env example_state]
  from t never_raises_example obtain out where
    out: "EMAStrategy_call example_env example_state = Inr out"
    by (auto simp: example_state_simps)
  with t obtain report where
    "stored_report out = Some report"
    "set (json_keys report) = set (get_tickers (data example_state))"
    "\<forall>ticker \<in> set (get_tickers (data example_state)).
        \<exists>inner. json_get report ticker = Some inner \<and>
          set (json_keys inner) = interval_value ` set (get_intervals (data example_state)) \<and>
          distinct (json_keys inner)"
    by blast
  then show ?thesis using out by (auto simp: example_state_simps)
qed

text \<open>
  C2, as amended. A returning \<^verbatim>\<open>__call__\<close> writes to the shared state in exactly two places:
  it sets \<^verbatim>\<open>data['name']\<close> to the name of its class and stores the report under
  \<^verbatim>\<open>data['analyst_signals']['technical_analyst_agent']\<close>. Nothing else of the state changes
  (messages, metadata, tickers, intervals, series, the other entries of \<^verbatim>\<open>analyst_signals\<close>),
  and the \<^verbatim>\<open>data\<close> it returns is that written dictionary. Its other effects are the four
  indicator calls of each pair, in order, and the print of the report when
  \<^verbatim>\<open>show_reasoning\<close> is set.
\<close>

theorem state_writes:
  assumes "strategy = EMAStrategy_call \<and> nm = ''EMAStrategy'' \<and> title = ''EMA Analyst'' \<or>
           strategy = RSIStrategy_call \<and> nm = ''RSIStrategy'' \<and> title = ''RSI Analyst''"
    and "strategy env state = Inr out"
  shows "\<exists>report sigs flag.
      analyst_signals (data state) = Some sigs \<and>
      metadata state ''show_reasoning'' = Some flag \<and>
      state_after out =
        state\<lparr>data := (data state)\<lparr>name := Some nm,
          analyst_signals := Some (sigs(''technical_analyst_agent'' \<mapsto> report))\<rparr>\<rparr> \<and>
      returned_data out = data (state_after out) \<and>
      effects out =
        concat (map (\<lambda>t. concat (map (\<lambda>i. adapter_calls (get_series (data state) t i))
                                     (get_intervals (data state))))
                    (get_tickers (data state)))
        @ (if flag then [Shown report title] else [])"
proof -
  from strategy_outcome[OF assms] obtain report sigs s flag where
    "analyst_signals (data state) = Some sigs"
    "metadata state ''show_reasoning'' = Some flag"
    "out = \<lparr>returned_messages = [\<lparr>content = s, message_name = ''technical_analyst_agent''\<rparr>],
             returned_data = (data state)\<lparr>name := Some nm,
               analyst_signals := Some (sigs(''technical_analyst_agent'' \<mapsto> report))\<rparr>,
             state_after = state\<lparr>data := (data state)\<lparr>name := Some nm,
               analyst_signals := Some (sigs(''technical_analyst_agent'' \<mapsto> report))\<rparr>\<rparr>,
             effects =
               concat (map (\<lambda>t. concat (map (\<lambda>i. adapter_calls (get_series (data state) t i))
                                            (get_intervals (data state))))
                           (get_tickers (data state)))
               @ (if flag then [Shown report title] else [])\<rparr>"
    by blast
  then show ?thesis
    by (intro exI[of _ report] exI[of _ sigs] exI[of _ flag]) simp
qed

theorem state_writes_witness:
  "\<exists>out report.
     RSIStrategy_call example_env example_state = Inr out \<and>
     state_after out =
       example_state\<lparr>data := example_data\<lparr>name := Some ''RSIStrategy'',
         analyst_signals := Some [''sentiment_agent'' \<mapsto> JObj [],
                                  ''technical_analyst_agent'' \<mapsto> report]\<rparr>\<rparr> \<and>
     returned_data out = data (state_after out) \<and>
     effects out = adapter_calls [100, 101, 103] @ adapter_calls []"
proof -
  from example_rsi_returns obtain out where
    out: "RSIStrategy_call example_env example_state = Inr out" by blast
  have "RSIStrategy_call = RSIStrategy_call \<and> ''RSIStrategy'' = ''RSIStrategy'' \<and>
        ''RSI Analyst'' = ''RSI Analyst''" by simp
  then have "(RSIStrategy_call :: (rat, json) env \<Rightarrow> rat AgentState \<Rightarrow> error + rat outcome)
        = EMAStrategy_call \<and> ''RSIStrategy'' = ''EMAStrategy'' \<and> ''RSI Analyst'' = ''EMA Analyst'' \<or>
     RSIStrategy_call = RSIStrategy_call \<and> ''RSIStrategy'' = ''RSIStrategy'' \<and>
        ''RSI Analyst'' = ''RSI Analyst''" by (rule disjI2)
  from state_writes[OF this out] obtain report sigs flag where
    f: "analyst_signals (data example_state) = Some sigs"
       "metadata example_state ''show_reasoning'' = Some flag"
       "state_after out =
          example_state\<lparr>data := (data example_state)\<lparr>name := Some ''RSIStrategy'',
            analyst_signals := Some (sigs(''technical_analyst_agent'' \<mapsto> report))\<rparr>\<rparr>"
       "returned_data out = data (state_after out)"
       "effects out =
          concat (map (\<lambda>t. concat (map (\<lambda>i. adapter_calls (get_series (data example_state) t i))
                                       (get_intervals (data example_state))))
                      (get_tickers (data example_state)))
          @ (if flag then [Shown report ''RSI Analyst''] else [])"
    by blast
  from f(1,2) have v: "sigs = [''sentiment_agent'' \<mapsto> JObj []]" "flag = False"
    by (simp_all add: example_state_simps)
  have d: "data example_state = example_data" by (simp add: example_state_def)
  show ?thesis
    using out f(3,4,5) unfolding v d
    by (intro exI[of _ out] exI[of _ report])
      (simp add: get_tickers_def get_intervals_def example_data_def example_series[unfolded example_data_def])
qed

text \<open>
  The state is not left as it was: on the example, \<^verbatim>\<open>data['name']\<close> is absent before the call
  and is \<^verbatim>\<open>"EMAStrategy"\<close> after it.
\<close>

theorem state_is_mutated:
  "\<exists>out. EMAStrategy_call example_env example_state = Inr out \<and>
     name (data example_state) = None \<and>
     name (data (state_after out)) = Some ''EMAStrategy'' \<and>
     state_after out \<noteq> example_state"
proof -
  from example_ema_returns obtain out where
    out: "EMAStrategy_call example_env example_state = Inr out" by blast
  have "EMAStrategy_call = EMAStrategy_call \<and> ''EMAStrategy'' = ''EMAStrategy'' \<and>
        ''EMA Analyst'' = ''EMA Analyst'' \<or>
     (EMAStrategy_call :: (rat, json) env \<Rightarrow> rat AgentState \<Rightarrow> error + rat outcome)
        = RSIStrategy_call \<and> ''EMAStrategy'' = ''RSIStrategy'' \<and> ''EMA Analyst'' = ''RSI Analyst''"
    by simp
  from strategy_outcome[OF this out] have n: "name (data (state_after out)) = Some ''EMAStrategy''"
    by auto
  moreover have "name (data example_state) = None" by (simp add: example_state_simps)
  ultimately show ?thesis using out by (intro exI[of _ out]) auto
qed






text \<open>
  C5. For one pair, a returning loop body has called each of the four indicator functions
  exactly once, on the pair's series, and the two labels that share an indicator
  (\<^verbatim>\<open>ema_crossovers\<close> and \<^verbatim>\<open>multi_timeframe\<close>; \<^verbatim>\<open>rsi_trend_strength\<close> and
  \<^verbatim>\<open>momentum\<close>) carry the same entry: signal, confidence and metrics.
\<close>

theorem adapters_invoked_once:
  "(\<forall>rec tr'. ema_pair env d ticker interval tr = Inr (rec, tr') \<longrightarrow>
      tr' = tr @ adapter_calls (get_series d ticker interval) \<and>
      (\<exists>detail entry. json_get rec ''strategy_signals'' = Some detail \<and>
         json_get detail ''ema_crossovers'' = Some entry \<and>
         json_get detail ''multi_timeframe'' = Some entry))
   \<and> (\<forall>rec tr'. rsi_pair env d ticker interval tr = Inr (rec, tr') \<longrightarrow>
      tr' = tr @ adapter_calls (get_series d ticker interval) \<and>
      (\<exists>detail entry. json_get rec ''strategy_signals'' = Some detail \<and>
         json_get detail ''rsi_trend_strength'' = Some entry \<and>
         json_get detail ''momentum'' = Some entry))
   \<and> (\<forall>a. count_list (adapter_calls (get_series d ticker interval))
              (Invoked a (get_series d ticker interval)) = 1)
   \<and> length (adapter_calls (get_series d ticker interval)) = 4"
proof (intro conjI allI impI)
  fix rec tr' assume "ema_pair env d ticker interval tr = Inr (rec, tr')"
  then show "tr' = tr @ adapter_calls (get_series d ticker interval)"
    and "\<exists>detail entry. json_get rec ''strategy_signals'' = Some detail \<and>
         json_get detail ''ema_crossovers'' = Some entry \<and>
         json_get detail ''multi_timeframe'' = Some entry"
    unfolding ema_pair_eq_Inr by auto
next
  fix rec tr' assume "rsi_pair env d ticker interval tr = Inr (rec, tr')"
  then show "tr' = tr @ adapter_calls (get_series d ticker interval)"
    and "\<exists>detail entry. json_get rec ''strategy_signals'' = Some detail \<and>
         json_get detail ''rsi_trend_strength'' = Some entry \<and>
         json_get detail ''momentum'' = Some entry"
    unfolding rsi_pair_eq_Inr by auto
next
  fix a
  show "count_list (adapter_calls (get_series d ticker interval))
          (Invoked a (get_series d ticker interval)) = 1"
    by (cases a) (simp_all add: adapter_calls_def)
next
  show "length (adapter_calls (get_series d ticker interval)) = 4"
    by (simp add: adapter_calls_def)
qed

theorem adapters_invoked_once_witness:
  "\<exists>rec detail entry.
     ema_pair example_env example_data ''AAA'' (Interval ''1d'') [] =
       Inr (rec, [Invoked Trend [100, 101, 103], Invoked Momentum [100, 101, 103],
                  Invoked MeanReversion [100, 101, 103], Invoked Volatility [100, 101, 103]]) \<and>
     json_get rec ''strategy_signals'' = Some detail \<and>
     json_get detail ''ema_crossovers'' = Some entry \<and>
     json_get detail ''multi_timeframe'' = Some entry \<and>
     entry = JObj [(''signal'', JStr ''bullish''), (''confidence'', JInt 80),
                   (''metrics'', JObj [(''last'', JNum 103)])]"
proof -
  note e = example_ema_pair
  from adapters_invoked_once[of example_env example_data "''AAA''" "Interval ''1d''" "[]"] e
  obtain detail entry where
    "json_get (JObj [(''signal'', JStr ''bullish''),
                (''confidence'', JInt 54),
                (''ema_periods'', ema_periods),
                (''strategy_signals'',
                   JObj [(''ema_crossovers'',
                            JObj [(''signal'', JStr ''bullish''), (''confidence'', JInt 80),
                                  (''metrics'', JObj [(''last'', JNum 103)])]),
                         (''ema_slope'',
                            JObj [(''signal'', JStr ''bullish''), (''confidence'', JInt 60),
                                  (''metrics'', JObj [(''last'', JNum 103)])]),
                         (''price_to_ema'',
                            JObj [(''signal'', JStr ''bearish''), (''confidence'', JInt 30),
                                  (''metrics'', JObj [(''last'', JNum 103)])]),
                         (''multi_timeframe'',
                            JObj [(''signal'', JStr ''bullish''), (''confidence'', JInt 80),
                                  (''metrics'', JObj [(''last'', JNum 103)])]),
                         (''ema_volatility'',
                            JObj [(''signal'', JStr ''neutral''), (''confidence'', JInt 50),
                                  (''metrics'', JObj [(''last'', JNum 103)])])])]) ''strategy_signals''
       = Some detail"
    "json_get detail ''ema_crossovers'' = Some entry"
    "json_get detail ''multi_timeframe'' = Some entry"
    by blast
  then show ?thesis using e by (auto simp: adapter_calls_def)
qed

text \<open>
  C6. When the series of a requested pair is absent from the data and the imported functions
  return, the call returns, each indicator function has been called on the empty series, and the
  report holds a record for the pair.
\<close>

theorem absent_series_still_reported:
  assumes "strategy = EMAStrategy_call \<or> strategy = RSIStrategy_call"
    and "never_raises env"
    and "metadata state ''show_reasoning'' \<noteq> None"
    and "analyst_signals (data state) \<noteq> None"
    and "ticker \<in> set (get_tickers (data state))"
    and "interval \<in> set (get_intervals (data state))"
    and "series (data state) (ticker @ ''_'' @ interval_value interval) = None"
  shows "\<exists>out rec. strategy env state = Inr out \<and>
           reported_record out ticker (interval_value interval) = Some rec \<and>
           set (adapter_calls []) \<subseteq> set (effects out)"
proof -
  have df: "get_series (data state) ticker interval = []"
    using assms(7) by (simp add: get_series_def)
  from assms(1) show ?thesis
  proof
    assume s: "strategy = EMAStrategy_call"
    from strategies_total(1)[OF assms(2,3,4)] obtain out where
      out: "EMAStrategy_call env state = Inr out" by blast
    have b: "\<forall>d t i tr rec tr'. ema_pair env d t i tr = Inr (rec, tr')
           \<longrightarrow> tr' = tr @ adapter_calls (get_series d t i) \<and> (\<lambda>_ _ _. True) t (interval_value i) rec"
      using ema_pair_trace by blast
    from strategy_records[where Q = "\<lambda>_ _ _. True", OF out[unfolded EMAStrategy_call_def] b assms(5,6)]
    show ?thesis using out unfolding s df by blast
  next
    assume s: "strategy = RSIStrategy_call"
    from strategies_total(2)[OF assms(2,3,4)] obtain out where
      out: "RSIStrategy_call env state = Inr out" by blast
    have b: "\<forall>d t i tr rec tr'. rsi_pair env d t i tr = Inr (rec, tr')
           \<longrightarrow> tr' = tr @ adapter_calls (get_series d t i) \<and> (\<lambda>_ _ _. True) t (interval_value i) rec"
      using rsi_pair_trace by blast
    from strategy_records[where Q = "\<lambda>_ _ _. True", OF out[unfolded RSIStrategy_call_def] b assms(5,6)]
    show ?thesis using out unfolding s df by blast
  qed
qed

theorem absent_series_still_reported_witness:
  "never_raises example_env \<and>
   series (data example_state) ''BBB_1d'' = None \<and>
   (\<exists>out rec. RSIStrategy_call example_env example_state = Inr out \<and>
      reported_record out ''BBB'' ''1d'' = Some rec \<and>
      Invoked Trend [] \<in> set (effects out) \<and> Invoked Momentum [] \<in> set (effects out) \<and>
      Invoked MeanReversion [] \<in> set (effects out) \<and> Invoked Volatility [] \<in> set (effects out))"
proof -
  have a: "(RSIStrategy_call :: (rat, json) env \<Rightarrow> rat AgentState \<Rightarrow> error + rat outcome)
             = EMAStrategy_call \<or> RSIStrategy_call = RSIStrategy_call" by simp
  have m: "metadata example_state ''show_reasoning'' \<noteq> None"
    and g: "analyst_signals (data example_state) \<noteq> None"
    and t: "''BBB'' \<in> set (get_tickers (data example_state))"
    and i: "Interval ''1d'' \<in> set (get_intervals (data example_state))"
    by (simp_all add: example_state_simps)
  have n: "series (data example_state) (''BBB'' @ ''_'' @ interval_value (Interval ''1d'')) = None"
    by (simp add: example_state_def example_data_def)
  from absent_series_still_reported[OF a never_raises_example m g t i n]
  show ?thesis using never_raises_example n by (auto simp: adapter_calls_def)
qed

text \<open>
  C7. In the fusion engine as the specification describes it, a set whose usable weight is zero
  is rejected with \<open>ConfigurationError\<close> and no consensus: when the weights are non-negative
  and those of the labels present sum to zero, and in particular when every weight of the
  profile is zero. The set may be empty or not.
\<close>

theorem zero_weight_configuration_error:
  "((\<forall>w \<in> snd ` set profile. 0 \<le> w) \<and>
     sum_list (map (\<lambda>(label, s). weight_of profile label) signals) = 0
      \<longrightarrow> fusion_engine threshold signals profile = Inl ConfigurationError)
   \<and> ((\<forall>w \<in> snd ` set profile. w = 0)
      \<longrightarrow> fusion_engine threshold signals profile = Inl ConfigurationError)"
proof (intro conjI impI)
  assume "(\<forall>w \<in> snd ` set profile. 0 \<le> w) \<and>
     sum_list (map (\<lambda>(label, s). weight_of profile label) signals) = 0"
  then have "usable_signals profile signals = []" using usable_signals_empty by blast
  then show "fusion_engine threshold signals profile = Inl ConfigurationError"
    by (rule fusion_engine_no_usable)
next
  assume z: "\<forall>w \<in> snd ` set profile. w = 0"
  have "weight_of profile label = 0" for label
  proof (cases "map_of profile label")
    case None
    then show ?thesis by (simp add: weight_of_def)
  next
    case (Some w)
    then have "(label, w) \<in> set profile" by (rule map_of_SomeD)
    then have "w \<in> snd ` set profile" by force
    with z have "w = 0" by blast
    with Some show ?thesis by (simp add: weight_of_def)
  qed
  then have "usable_signals profile signals = []"
    by (simp add: usable_signals_def)
  then show "fusion_engine threshold signals profile = Inl ConfigurationError"
    by (rule fusion_engine_no_usable)
qed

theorem zero_weight_configuration_error_witness:
  "snd ` set [(''ema_crossovers'', 0 :: rat), (''ema_slope'', 0)] = {0} \<and>
   fusion_engine 0
     [(''ema_crossovers'', \<lparr>signal = bullish, confidence = 1, metrics = ()\<rparr>),
      (''ema_slope'', \<lparr>signal = bearish, confidence = 1 / 2, metrics = ()\<rparr>)]
     [(''ema_crossovers'', 0), (''ema_slope'', 0)] = Inl ConfigurationError"
  using zero_weight_configuration_error[of "[(''ema_crossovers'', 0), (''ema_slope'', 0)]"
    "[(''ema_crossovers'', \<lparr>signal = bullish, confidence = 1, metrics = ()\<rparr>),
      (''ema_slope'', \<lparr>signal = bearish, confidence = 1 / 2, metrics = ()\<rparr>)]" 0]
  by simp

text \<open>
  C8. The fusion engine as the specification describes it is a function of the labelled
  signals as a multiset and of the profile as a mapping: listing the signals or the weights in
  another order gives the same consensus, or the same error.
\<close>

theorem fusion_order_independent:
  assumes "mset signals' = mset signals" and "map_of profile' = map_of profile"
  shows "fusion_engine threshold signals' profile' = fusion_engine threshold signals profile"
proof -
  have w: "weight_of profile' = weight_of profile" using assms(2) by (rule weight_of_cong)
  then have c: "contribution profile' = contribution profile"
    by (simp add: contribution_def fun_eq_iff)
  have e: "weighted_sum profile' signals' = weighted_sum profile signals"
    "total_weight profile' signals' = total_weight profile signals"
    unfolding sums_mset assms(1) w c by simp_all
  show ?thesis unfolding fusion_engine_def e by (rule refl)
qed

theorem fusion_order_independent_witness:
  "mset [(''momentum'', \<lparr>signal = bearish, confidence = 3 / 10, metrics = ()\<rparr>),
         (''rsi_divergence'', \<lparr>signal = bullish, confidence = 8 / 10, metrics = ()\<rparr>)]
     = mset [(''rsi_divergence'', \<lparr>signal = bullish, confidence = 8 / 10, metrics = ()\<rparr>),
             (''momentum'', \<lparr>signal = bearish, confidence = 3 / 10, metrics = ()\<rparr>)] \<and>
   fusion_engine 0
     [(''momentum'', \<lparr>signal = bearish, confidence = 3 / 10, metrics = ()\<rparr>),
      (''rsi_divergence'', \<lparr>signal = bullish, confidence = 8 / 10, metrics = ()\<rparr>)]
     (rev rsi_strategy_weights)
   = fusion_engine 0
     [(''rsi_divergence'', \<lparr>signal = bullish, confidence = 8 / 10, metrics = ()\<rparr>),
      (''momentum'', \<lparr>signal = bearish, confidence = 3 / 10, metrics = ()\<rparr>)]
     rsi_strategy_weights"
proof -
  have m: "mset [(''momentum'', \<lparr>signal = bearish, confidence = 3 / 10, metrics = ()\<rparr>),
         (''rsi_divergence'', \<lparr>signal = bullish, confidence = 8 / 10, metrics = ()\<rparr>)]
     = mset [(''rsi_divergence'', \<lparr>signal = bullish, confidence = 8 / 10, metrics = ()\<rparr>),
             (''momentum'', \<lparr>signal = bearish, confidence = 3 / 10, metrics = ()\<rparr>)]"
    by (simp add: add_mset_commute)
  have p: "map_of (rev rsi_strategy_weights) = map_of rsi_strategy_weights"
    by (rule ext) (simp add: rsi_strategy_weights_def)
  from fusion_order_independent[OF m p, of 0] m show ?thesis by blast
qed

text \<open>
  C9. In the fusion engine as the specification describes it, multiplying every weight of the
  profile by the same positive constant changes neither the direction nor the confidence, nor
  whether the set is rejected.
\<close>

theorem fusion_scale_invariant:
  fixes signals :: "(string \<times> 'm SignalTriple) list"
  assumes "0 < c"
  shows "fusion_engine threshold signals (scale_profile c profile) =
         fusion_engine threshold signals profile"
proof -
  have u: "usable_signals (scale_profile c profile) signals = usable_signals profile signals"
    using assms by (simp add: usable_signals_def weight_of_scale zero_less_mult_iff)
  have "(\<lambda>(label, s). weight_of (scale_profile c profile) label) =
        (\<lambda>x :: string \<times> 'm SignalTriple. c * (\<lambda>(label, s). weight_of profile label) x)"
    by (simp add: weight_of_scale fun_eq_iff)
  then have t: "total_weight (scale_profile c profile) signals = c * total_weight profile signals"
    unfolding total_weight_def u by (simp only: sum_list_const_mult)
  have "contribution (scale_profile c profile) =
        (\<lambda>x :: string \<times> 'm SignalTriple. c * contribution profile x)"
    by (simp add: contribution_def weight_of_scale fun_eq_iff mult.assoc)
  then have s: "weighted_sum (scale_profile c profile) signals = c * weighted_sum profile signals"
    unfolding weighted_sum_def u by (simp only: sum_list_const_mult)
  show ?thesis
    unfolding fusion_engine_def Let_def t s using assms by simp
qed

theorem fusion_scale_invariant_witness:
  "(0 :: rat) < 100 \<and>
   fusion_engine 0
     [(''ema_crossovers'', \<lparr>signal = bullish, confidence = 8 / 10, metrics = ()\<rparr>),
      (''price_to_ema'', \<lparr>signal = bearish, confidence = 3 / 10, metrics = ()\<rparr>)]
     (scale_profile 100 ema_strategy_weights)
   = Inr \<lparr>consensus_signal = bullish, consensus_confidence = 21 / 40\<rparr> \<and>
   fusion_engine 0
     [(''ema_crossovers'', \<lparr>signal = bullish, confidence = 8 / 10, metrics = ()\<rparr>),
      (''price_to_ema'', \<lparr>signal = bearish, confidence = 3 / 10, metrics = ()\<rparr>)]
     ema_strategy_weights
   = Inr \<lparr>consensus_signal = bullish, consensus_confidence = 21 / 40\<rparr>"
proof -
  have e: "fusion_engine 0
     [(''ema_crossovers'', \<lparr>signal = bullish, confidence = 8 / 10, metrics = ()\<rparr>),
      (''price_to_ema'', \<lparr>signal = bearish, confidence = 3 / 10, metrics = ()\<rparr>)]
     ema_strategy_weights
   = Inr \<lparr>consensus_signal = bullish, consensus_confidence = 21 / 40\<rparr>"
    by (simp add: fusion_engine_def total_weight_def weighted_sum_def usable_signals_def
        contribution_def weight_of_def ema_strategy_weights_def)
  have c: "(0 :: rat) < 100" by simp
  from fusion_scale_invariant[OF c, of 0
      "[(''ema_crossovers'', \<lparr>signal = bullish, confidence = 8 / 10, metrics = ()\<rparr>),
        (''price_to_ema'', \<lparr>signal = bearish, confidence = 3 / 10, metrics = ()\<rparr>)]"
      ema_strategy_weights] e c
  show ?thesis by simp
qed



end
